theory Spec2Isabelle
  imports
    Complex_Main
    "HOL-Library.Sublist"
    "HOL-Library.Char_ord"
    "HOL-Library.List_Lexorder"
    "HOL-Library.Multiset"
    "HOL-Library.Monad_Syntax"
begin

section \<open>Strings\<close>

text \<open>
  A JavaScript string is a sequence of code units. The development works with the
  code units below 256 (type \<^typ>\<open>char\<close>), which covers every URL, host name,
  software name and timestamp an ASCII or Latin-1 peer list can carry.
\<close>

text \<open>
  The white space and line terminators that \<^verbatim>\<open>String.prototype.trim\<close> removes,
  among the code units below 256: TAB, LF, VT, FF, CR, SPACE and NO-BREAK SPACE.
\<close>

definition isWhiteSpace :: "char \<Rightarrow> bool" where
  "isWhiteSpace c =
     (c = CHR 0x09 \<or> c = CHR 0x0A \<or> c = CHR 0x0B \<or> c = CHR 0x0C \<or> c = CHR 0x0D
      \<or> c = CHR 0x20 \<or> c = CHR 0xA0)"

text \<open>Removing the longest suffix whose code units all satisfy \<open>P\<close>.\<close>

definition dropWhileEnd :: "(char \<Rightarrow> bool) \<Rightarrow> string \<Rightarrow> string" where
  "dropWhileEnd P s = rev (dropWhile P (rev s))"

definition trim :: "string \<Rightarrow> string" where
  "trim s = dropWhileEnd isWhiteSpace (dropWhile isWhiteSpace s)"

definition startsWith :: "string \<Rightarrow> string \<Rightarrow> bool" where
  "startsWith s p = prefix p s"

text \<open>
  \<^verbatim>\<open>toLowerCase\<close> on code units below 256: the ASCII capitals and the Latin-1
  capitals (0xC0 to 0xDE, the multiplication sign 0xD7 apart) move up by 32.
\<close>

definition toLowerCase_char :: "char \<Rightarrow> char" where
  "toLowerCase_char c =
     (let n = (of_char c :: nat) in
      if (65 \<le> n \<and> n \<le> 90) \<or> (192 \<le> n \<and> n \<le> 222 \<and> n \<noteq> 215)
      then char_of (n + 32) else c)"

definition toLowerCase :: "string \<Rightarrow> string" where
  "toLowerCase s = map toLowerCase_char s"

section \<open>Address normalizer and software support\<close>

text \<open>\<^verbatim>\<open>isSupportedSoftware\<close>: the switch over the trimmed, lower-cased name.\<close>

definition isSupportedSoftware :: "string \<Rightarrow> bool" where
  "isSupportedSoftware software =
     (let s = toLowerCase (trim software) in
      if s = ''lemmy'' then True
      else if s = ''piefed'' then True
      else False)"

text \<open>\<^verbatim>\<open>instance.replace(/\/+$/, "")\<close>: the run of slashes at the end is removed.\<close>

definition strip_trailing_slashes :: "string \<Rightarrow> string" where
  "strip_trailing_slashes s = dropWhileEnd (\<lambda>c. c = CHR ''/'') s"

text \<open>\<^verbatim>\<open>normalizeInstance\<close> of the crawler (trim, prepend the scheme, strip slashes).\<close>

definition normalizeInstance :: "string \<Rightarrow> string" where
  "normalizeInstance instance =
     (let instance1 = trim instance;
          instance2 = (if \<not> startsWith instance1 ''http''
                       then ''https://'' @ instance1 else instance1)
      in strip_trailing_slashes instance2)"

text \<open>
  \<^verbatim>\<open>normalizeInstance\<close> as \<^verbatim>\<open>cralwer.ts\<close> has it: the same without the
  final replace.
\<close>

definition normalizeInstance_cralwer :: "string \<Rightarrow> string" where
  "normalizeInstance_cralwer instance =
     (let instance1 = trim instance
      in if \<not> startsWith instance1 ''http'' then ''https://'' @ instance1 else instance1)"

section \<open>The recency window\<close>

text \<open>
  Instants are milliseconds since the epoch, as \<^verbatim>\<open>Date.prototype.getTime\<close> gives
  them. \<^verbatim>\<open>date-fns\<close> is a dependency, not part of the repository: \<open>parseISO\<close> is
  a parameter of the model (\<open>None\<close> stands for \<^verbatim>\<open>Invalid Date\<close>), and \<open>subDays\<close>
  is taken on a clock without daylight-saving transitions, where a day has 86400000
  milliseconds.
\<close>

record interval =
  interval_start :: int
  interval_end :: int

definition subDays :: "int \<Rightarrow> int \<Rightarrow> int" where
  "subDays date amount = date - amount * 86400000"

text \<open>
  \<^verbatim>\<open>isWithinInterval\<close>: the two ends are put in order, and an invalid date is in
  no interval.
\<close>

definition isWithinInterval :: "int option \<Rightarrow> interval \<Rightarrow> bool" where
  "isWithinInterval date i =
     (case date of
        None \<Rightarrow> False
      | Some time \<Rightarrow>
          (let startTime = min (interval_start i) (interval_end i);
               endTime = max (interval_start i) (interval_end i)
           in time \<ge> startTime \<and> time \<le> endTime))"

text \<open>
  \<^verbatim>\<open>ONE_MONTH_AGO\<close> is a constant of the module \<^verbatim>\<open>utils/date.ts\<close>: it is built
  when the module is loaded, from two successive readings \<open>now1\<close> and \<open>now2\<close> of the
  clock (the two \<^verbatim>\<open>new Date()\<close>), and never again.
\<close>

definition ONE_MONTH_AGO :: "int \<Rightarrow> int \<Rightarrow> interval" where
  "ONE_MONTH_AGO now1 now2 = \<lparr>interval_start = subDays now1 30, interval_end = now2\<rparr>"

definition dateLessThanOneMonthAgo :: "(string \<Rightarrow> int option) \<Rightarrow> interval \<Rightarrow> string \<Rightarrow> bool" where
  "dateLessThanOneMonthAgo parseISO one_month_ago date =
     isWithinInterval (parseISO date) one_month_ago"

section \<open>Peer discovery\<close>

text \<open>One entry of \<^verbatim>\<open>federated_instances.linked\<close>, as the schema validates it.\<close>

record linked =
  domain :: string
  software :: "string option"
  published :: "string option"
  updated :: "string option"

text \<open>
  The filter of \<^verbatim>\<open>explore\<close>. A string is truthy when it is not empty, and
  \<^verbatim>\<open>??\<close> falls back to \<open>published\<close> only when \<open>updated\<close> is absent.
\<close>

definition explore_filter :: "(string \<Rightarrow> int option) \<Rightarrow> interval \<Rightarrow> linked \<Rightarrow> bool" where
  "explore_filter parseISO one_month_ago l =
     (let upd = (case updated l of Some u \<Rightarrow> Some u | None \<Rightarrow> published l) in
      case software l of
        None \<Rightarrow> False
      | Some sw \<Rightarrow>
          sw \<noteq> [] \<and> isSupportedSoftware sw \<and>
          (case upd of
             None \<Rightarrow> False
           | Some u \<Rightarrow> u \<noteq> [] \<and> dateLessThanOneMonthAgo parseISO one_month_ago u))"

text \<open>The addresses \<^verbatim>\<open>explore\<close> hands to \<^verbatim>\<open>requestQueue.addRequests\<close>.\<close>

definition explore :: "(string \<Rightarrow> int option) \<Rightarrow> interval \<Rightarrow> linked list \<Rightarrow> string list" where
  "explore parseISO one_month_ago ls =
     map (\<lambda>l. normalizeInstance (domain l)) (filter (explore_filter parseISO one_month_ago) ls)"

text \<open>
  The recency and support filter in the specification's words: the window is the
  trailing 30 days measured from \<open>now\<close>, the instant at which the filter is evaluated.
\<close>

definition spec_peer_admitted :: "(string \<Rightarrow> int option) \<Rightarrow> int \<Rightarrow> linked \<Rightarrow> bool" where
  "spec_peer_admitted parseISO now l =
     ((case software l of None \<Rightarrow> False | Some sw \<Rightarrow> isSupportedSoftware sw) \<and>
      (case (case updated l of Some u \<Rightarrow> Some u | None \<Rightarrow> published l) of
         None \<Rightarrow> False
       | Some u \<Rightarrow>
           (case parseISO u of
              None \<Rightarrow> False
            | Some t \<Rightarrow> now - 30 * 86400000 \<le> t \<and> t \<le> now)))"

subsection \<open>A concrete clock and peer list\<close>

text \<open>
  The module is loaded at 2026-01-01T00:00:00Z, that is 1767225600000. The table
  gives \<open>parseISO\<close> on the timestamps of the examples.
\<close>

definition load_time :: int where
  "load_time = 1767225600000"

definition example_parseISO :: "string \<Rightarrow> int option" where
  "example_parseISO s =
     (if s = ''2026-01-01T00:01:00Z'' then Some 1767225660000
      else if s = ''2025-12-03T00:00:00Z'' then Some 1764720000000
      else if s = ''2025-12-01T00:00:00Z'' then Some 1764547200000
      else None)"

definition peer_updated_during_crawl :: linked where
  "peer_updated_during_crawl =
     \<lparr>domain = ''b.example'', software = Some ''lemmy'', published = None,
      updated = Some ''2026-01-01T00:01:00Z''\<rparr>"

definition peer_29_days :: linked where
  "peer_29_days =
     \<lparr>domain = ''b.example/'', software = Some ''Lemmy'', published = None,
      updated = Some ''2025-12-03T00:00:00Z''\<rparr>"

definition peer_31_days :: linked where
  "peer_31_days =
     \<lparr>domain = ''c.example'', software = Some ''lemmy'',
      published = Some ''2025-12-03T00:00:00Z'', updated = Some ''2025-12-01T00:00:00Z''\<rparr>"

definition peer_no_timestamp :: linked where
  "peer_no_timestamp =
     \<lparr>domain = ''d.example'', software = Some ''piefed'', published = None, updated = None\<rparr>"

section \<open>Errors, responses and the platform\<close>

text \<open>Every exception a request handler can meet is a value.\<close>

datatype error =
    TransportError string  \<comment> \<open>a rejection of the transport, named by its cause\<close>
  | AbortError             \<comment> \<open>the \<^verbatim>\<open>DOMException\<close> of an aborted \<^verbatim>\<open>fetch\<close>\<close>
  | TimeoutError           \<comment> \<open>the \<^verbatim>\<open>DOMException\<close> of \<^verbatim>\<open>AbortSignal.timeout\<close>\<close>
  | FetchTimedOut nat      \<comment> \<open>\<^verbatim>\<open>Error("Fetch timed out after <n>ms")\<close>\<close>
  | SyntaxError            \<comment> \<open>\<^verbatim>\<open>JSON.parse\<close> on a body that is not JSON\<close>
  | ZodError               \<comment> \<open>\<^verbatim>\<open>schema.parse\<close> on a value of another shape\<close>
  | InvalidURL             \<comment> \<open>the \<^verbatim>\<open>TypeError\<close> of \<^verbatim>\<open>new URL\<close>\<close>
  | TaskTimeout            \<comment> \<open>the handler ran into the task timeout\<close>

record response =
  statusCode :: nat
  body :: string

text \<open>A parsed JSON value. An object keeps its members in the order of the text.\<close>

datatype json =
    JNull
  | JBool bool
  | JNumber real
  | JString string
  | JArray "json list"
  | JObject "(string \<times> json) list"

text \<open>
  What the JavaScript platform and \<^verbatim>\<open>date-fns\<close> compute is a parameter of the
  model: the host of \<^verbatim>\<open>new URL(s)\<close> (\<open>None\<close> when the constructor throws),
  \<^verbatim>\<open>JSON.parse\<close> (\<open>None\<close> when it throws) and \<open>parseISO\<close>.
\<close>

record platform =
  URL_host :: "string \<Rightarrow> string option"
  JSON_parse :: "string \<Rightarrow> json option"
  parseISO :: "string \<Rightarrow> int option"

text \<open>
  The network is an oracle: given the URLs requested so far and the URL requested now,
  it tells how many milliseconds the request takes and how it settles. A request
  state holds the clock of the running handler and the URLs it has requested.
\<close>

type_synonym transport = "string list \<Rightarrow> string \<Rightarrow> nat \<times> (error + response)"

record request_state =
  clock :: nat
  requests :: "string list"

section \<open>Response shapes\<close>

text \<open>Member access on a parsed object: the last member of a name wins.\<close>

definition property :: "string \<Rightarrow> json \<Rightarrow> json option" where
  "property k j = (case j of JObject kvs \<Rightarrow> map_of (rev kvs) k | _ \<Rightarrow> None)"

definition z_object :: "json \<Rightarrow> json option" where
  "z_object j = (case j of JObject kvs \<Rightarrow> Some j | _ \<Rightarrow> None)"

definition z_string :: "json \<Rightarrow> string option" where
  "z_string j = (case j of JString s \<Rightarrow> Some s | _ \<Rightarrow> None)"

definition z_boolean :: "json \<Rightarrow> bool option" where
  "z_boolean j = (case j of JBool b \<Rightarrow> Some b | _ \<Rightarrow> None)"

definition z_number :: "json \<Rightarrow> real option" where
  "z_number j = (case j of JNumber n \<Rightarrow> Some n | _ \<Rightarrow> None)"

definition z_array :: "json \<Rightarrow> json list option" where
  "z_array j = (case j of JArray xs \<Rightarrow> Some xs | _ \<Rightarrow> None)"

text \<open>A required member, and an optional one (\<^verbatim>\<open>.optional()\<close>).\<close>

definition z_field :: "string \<Rightarrow> (json \<Rightarrow> 'a option) \<Rightarrow> json \<Rightarrow> 'a option" where
  "z_field k p j = (case property k j of None \<Rightarrow> None | Some v \<Rightarrow> p v)"

definition z_optional :: "string \<Rightarrow> (json \<Rightarrow> 'a option) \<Rightarrow> json \<Rightarrow> 'a option option" where
  "z_optional k p j = (case property k j of None \<Rightarrow> Some None | Some v \<Rightarrow> map_option Some (p v))"

text \<open>\<^verbatim>\<open>z.string().nullable().optional()\<close>: absent, \<^verbatim>\<open>null\<close> or a string.\<close>

datatype nullable_string = Undefined | Null | Str string

definition z_string_nullable_optional :: "string \<Rightarrow> json \<Rightarrow> nullable_string option" where
  "z_string_nullable_optional k j =
     (case property k j of
        None \<Rightarrow> Some Undefined
      | Some JNull \<Rightarrow> Some Null
      | Some (JString s) \<Rightarrow> Some (Str s)
      | Some _ \<Rightarrow> None)"

datatype software_name = Lemmy | Piefed

record nodeInfo =
  software_name :: software_name
  software_version :: string

definition z_enum_software :: "json \<Rightarrow> software_name option" where
  "z_enum_software j =
     (case j of
        JString s \<Rightarrow> if s = ''lemmy'' then Some Lemmy
                     else if s = ''piefed'' then Some Piefed else None
      | _ \<Rightarrow> None)"

definition nodeInfoSchema :: "json \<Rightarrow> nodeInfo option" where
  "nodeInfoSchema j =
     do {
      _ \<leftarrow> z_object j;
      sw \<leftarrow> z_field ''software'' z_object j;
      n \<leftarrow> z_field ''name'' z_enum_software sw;
      v \<leftarrow> z_field ''version'' z_string sw;
      Some \<lparr>software_name = n, software_version = v\<rparr>
     }"

definition z_linked :: "json \<Rightarrow> linked option" where
  "z_linked j =
     do {
      _ \<leftarrow> z_object j;
      d \<leftarrow> z_field ''domain'' z_string j;
      s \<leftarrow> z_optional ''software'' z_string j;
      p \<leftarrow> z_optional ''published'' z_string j;
      u \<leftarrow> z_optional ''updated'' z_string j;
      Some \<lparr>domain = d, software = s, published = p, updated = u\<rparr>
     }"

text \<open>The schema's value is \<^verbatim>\<open>federated_instances.linked\<close>, the only member read.\<close>

definition federatedInstancesSchema :: "json \<Rightarrow> linked list option" where
  "federatedInstancesSchema j =
     do {
      _ \<leftarrow> z_object j;
      fi \<leftarrow> z_field ''federated_instances'' z_object j;
      xs \<leftarrow> z_field ''linked'' z_array fi;
      those (map z_linked xs)
     }"

record site =
  site_description :: nullable_string
  site_icon :: nullable_string
  registration_mode :: string
  private_instance :: bool
  users_active_month :: real

definition lemmySiteV3 :: "json \<Rightarrow> site option" where
  "lemmySiteV3 j =
     do {
      _ \<leftarrow> z_object j;
      sv \<leftarrow> z_field ''site_view'' z_object j;
      st \<leftarrow> z_field ''site'' z_object sv;
      d \<leftarrow> z_string_nullable_optional ''description'' st;
      i \<leftarrow> z_string_nullable_optional ''icon'' st;
      ls \<leftarrow> z_field ''local_site'' z_object sv;
      r \<leftarrow> z_field ''registration_mode'' z_string ls;
      p \<leftarrow> z_field ''private_instance'' z_boolean ls;
      c \<leftarrow> z_field ''counts'' z_object sv;
      n \<leftarrow> z_field ''users_active_month'' z_number c;
      Some \<lparr>site_description = d, site_icon = i, registration_mode = r,
            private_instance = p, users_active_month = n\<rparr>
     }"

definition pieFedSiteV3 :: "json \<Rightarrow> site option" where
  "pieFedSiteV3 = lemmySiteV3"

section \<open>The protocol client\<close>

text \<open>
  \<^verbatim>\<open>sendRequest\<close> of the crawling context: one request, which takes the time the
  oracle tells and settles as the oracle tells.
\<close>

definition sendRequest :: "transport \<Rightarrow> string \<Rightarrow> request_state \<Rightarrow> (error + response) \<times> request_state" where
  "sendRequest tr url st =
     (let (latency, settled) = tr (requests st) url
      in (settled, \<lparr>clock = clock st + latency, requests = requests st @ [url]\<rparr>))"

text \<open>\<^verbatim>\<open>get\<close> of the request handler: \<^verbatim>\<open>schema.parse(JSON.parse(response.body))\<close>.\<close>

definition get :: "platform \<Rightarrow> transport \<Rightarrow> string \<Rightarrow> (json \<Rightarrow> 'a option) \<Rightarrow> request_state
    \<Rightarrow> (error + 'a) \<times> request_state" where
  "get P tr url schema st =
     (case sendRequest tr url st of
        (Inl e, st') \<Rightarrow> (Inl e, st')
      | (Inr nodeInfoReq, st') \<Rightarrow>
          (case JSON_parse P (body nodeInfoReq) of
             None \<Rightarrow> (Inl SyntaxError, st')
           | Some j \<Rightarrow>
               (case schema j of
                  None \<Rightarrow> (Inl ZodError, st')
                | Some v \<Rightarrow> (Inr v, st'))))"

text \<open>
  \<^verbatim>\<open>fetch\<close> with an abort signal that fires \<open>abort_after\<close> milliseconds after the
  call and rejects with \<open>abort_error\<close>. A response of any status resolves the promise;
  a request that has not settled before the signal fires is aborted.
\<close>

definition fetch :: "transport \<Rightarrow> string \<Rightarrow> nat \<Rightarrow> error \<Rightarrow> request_state
    \<Rightarrow> (error + response) \<times> request_state" where
  "fetch tr url abort_after abort_error st =
     (let (latency, settled) = tr (requests st) url
      in if abort_after \<le> latency
         then (Inl abort_error, \<lparr>clock = clock st + abort_after, requests = requests st @ [url]\<rparr>)
         else (settled, \<lparr>clock = clock st + latency, requests = requests st @ [url]\<rparr>))"

text \<open>
  \<^verbatim>\<open>fetchWithTimeout\<close> of \<^verbatim>\<open>utils/fetch.ts\<close>; \<open>timeoutMs\<close> is \<open>None\<close> when the
  caller leaves the parameter out.
\<close>

definition fetchWithTimeout :: "transport \<Rightarrow> string \<Rightarrow> nat option \<Rightarrow> request_state
    \<Rightarrow> (error + response) \<times> request_state" where
  "fetchWithTimeout tr url timeoutMs_opt st =
     (let timeoutMs = (case timeoutMs_opt of None \<Rightarrow> 5000 | Some t \<Rightarrow> t)
      in case fetch tr url timeoutMs AbortError st of
           (Inr response, st') \<Rightarrow> (Inr response, st')
         | (Inl err, st') \<Rightarrow>
             (if err = AbortError then (Inl (FetchTimedOut timeoutMs), st')
              else (Inl err, st')))"

text \<open>
  \<^verbatim>\<open>get\<close> of \<^verbatim>\<open>cralwer.ts\<close>: \<^verbatim>\<open>fetch\<close> under \<^verbatim>\<open>AbortSignal.timeout(5000)\<close>,
  \<^verbatim>\<open>res.json()\<close>, \<^verbatim>\<open>schema.parse\<close>; what is caught is thrown again.
\<close>

definition get_cralwer :: "platform \<Rightarrow> transport \<Rightarrow> string \<Rightarrow> (json \<Rightarrow> 'a option) \<Rightarrow> request_state
    \<Rightarrow> (error + 'a) \<times> request_state" where
  "get_cralwer P tr url schema st =
     (case fetch tr url 5000 TimeoutError st of
        (Inl err, st') \<Rightarrow> (Inl err, st')
      | (Inr res, st') \<Rightarrow>
          (case JSON_parse P (body res) of
             None \<Rightarrow> (Inl SyntaxError, st')
           | Some json \<Rightarrow>
               (case schema json of
                  None \<Rightarrow> (Inl ZodError, st')
                | Some v \<Rightarrow> (Inr v, st'))))"

section \<open>The request handler\<close>

record Instance =
  url :: string
  host :: string
  description :: nullable_string
  icon :: nullable_string
  instance_software :: software_name
  registrationMode :: string

definition MIN_MAU :: real where
  "MIN_MAU = 20"

text \<open>
  What one run of the handler did: the URLs it requested, the call of
  \<^verbatim>\<open>requestQueue.addRequests\<close> (the instant on the handler's clock and the
  addresses), the instant at which the handler settled, and how it settled: with an
  error, or normally, with the record it pushed to the dataset if it pushed one.
\<close>

record handler_result =
  requested :: "string list"
  explored :: "(nat \<times> string list) option"
  finished :: nat
  outcome :: "error + Instance option"

definition settle :: "request_state \<Rightarrow> (nat \<times> string list) option \<Rightarrow> error + Instance option
    \<Rightarrow> handler_result" where
  "settle st ex out = \<lparr>requested = requests st, explored = ex, finished = clock st, outcome = out\<rparr>"

text \<open>
  The body the \<^verbatim>\<open>lemmy\<close> branch (for a version that does not start with \<^verbatim>\<open>1.\<close>)
  and the \<^verbatim>\<open>piefed\<close> branch share: they differ in the name of the site schema and
  in the \<^verbatim>\<open>software\<close> literal of the record.
\<close>

definition crawl_v3 :: "platform \<Rightarrow> interval \<Rightarrow> transport \<Rightarrow> string \<Rightarrow> string
    \<Rightarrow> (json \<Rightarrow> site option) \<Rightarrow> software_name \<Rightarrow> request_state \<Rightarrow> handler_result" where
  "crawl_v3 P one_month_ago tr instance host' siteSchema sw st1 =
     (case get P tr (instance @ ''/api/v3/federated_instances'') federatedInstancesSchema st1 of
        (Inl e, st2) \<Rightarrow> settle st2 None (Inl e)
      | (Inr federatedInstances, st2) \<Rightarrow>
          (let added = Some (clock st2, explore (parseISO P) one_month_ago federatedInstances)
           in (case get P tr (instance @ ''/api/v3/site'') siteSchema st2 of
                 (Inl e, st3) \<Rightarrow> settle st3 added (Inl e)
               | (Inr site, st3) \<Rightarrow>
                   (if users_active_month site \<ge> MIN_MAU \<and> \<not> private_instance site
                    then settle st3 added (Inr (Some
                           \<lparr>url = instance, host = host',
                            description = site_description site, icon = site_icon site,
                            instance_software = sw,
                            registrationMode = registration_mode site\<rparr>))
                    else settle st3 added (Inr None)))))"

definition requestHandler :: "platform \<Rightarrow> interval \<Rightarrow> transport \<Rightarrow> string \<Rightarrow> handler_result" where
  "requestHandler P one_month_ago tr request_url =
     (let instance = normalizeInstance request_url;
          st0 = \<lparr>clock = 0, requests = []\<rparr>
      in (case URL_host P instance of
            None \<Rightarrow> settle st0 None (Inl InvalidURL)
          | Some host' \<Rightarrow>
              (case get P tr (instance @ ''/nodeinfo/2.1'') nodeInfoSchema st0 of
                 (Inl e, st1) \<Rightarrow> settle st1 None (Inl e)
               | (Inr nodeInfo, st1) \<Rightarrow>
                   (case software_name nodeInfo of
                      Lemmy \<Rightarrow>
                        (if startsWith (software_version nodeInfo) ''1.''
                         then settle st1 None (Inr None)
                         else crawl_v3 P one_month_ago tr instance host' lemmySiteV3 Lemmy st1)
                    | Piefed \<Rightarrow>
                        crawl_v3 P one_month_ago tr instance host' pieFedSiteV3 Piefed st1))))"

section \<open>The queue item of \<^verbatim>\<open>cralwer.ts\<close>\<close>

text \<open>
  The two site schemas of \<^verbatim>\<open>cralwer.ts\<close>; the handler reads nothing of what they
  validate, so their value is the unit.
\<close>

definition lemmySiteV3_cralwer :: "json \<Rightarrow> unit option" where
  "lemmySiteV3_cralwer j =
     do {
      _ \<leftarrow> z_object j;
      sv \<leftarrow> z_field ''site_view'' z_object j;
      st \<leftarrow> z_field ''site'' z_object sv;
      _ \<leftarrow> z_string_nullable_optional ''description'' st;
      _ \<leftarrow> z_string_nullable_optional ''icon'' st;
      ls \<leftarrow> z_field ''local_site'' z_object sv;
      _ \<leftarrow> z_field ''registration_mode'' z_string ls;
      Some ()
     }"

definition pieFedSiteV3_cralwer :: "json \<Rightarrow> unit option" where
  "pieFedSiteV3_cralwer j =
     do {
      _ \<leftarrow> z_object j;
      st \<leftarrow> z_field ''site'' z_object j;
      _ \<leftarrow> z_string_nullable_optional ''description'' st;
      _ \<leftarrow> z_string_nullable_optional ''icon'' st;
      _ \<leftarrow> z_field ''registration_mode'' z_string st;
      Some ()
     }"

text \<open>\<^verbatim>\<open>explore\<close> of \<^verbatim>\<open>cralwer.ts\<close>: the addresses it hands to \<^verbatim>\<open>queue\<close>, in order.\<close>

definition explore_cralwer :: "(string \<Rightarrow> int option) \<Rightarrow> interval \<Rightarrow> linked list \<Rightarrow> string list" where
  "explore_cralwer parse one_month_ago ls =
     map (\<lambda>l. normalizeInstance_cralwer (domain l))
       (filter (explore_filter parse one_month_ago) ls)"

text \<open>
  The body of the \<^verbatim>\<open>try\<close> block of \<^verbatim>\<open>processQueueItem\<close>: the URLs requested, the
  addresses queued, and the error thrown if one is thrown. Nothing is recorded for the
  server: the two \<^verbatim>\<open>discovered.push\<close> are commented out.
\<close>

definition fetch_and_explore :: "platform \<Rightarrow> interval \<Rightarrow> transport \<Rightarrow> string \<Rightarrow> string
    \<Rightarrow> (json \<Rightarrow> unit option) \<Rightarrow> request_state \<Rightarrow> string list \<times> string list \<times> error option" where
  "fetch_and_explore P one_month_ago tr peers_url site_url siteSchema st1 =
     (case get_cralwer P tr peers_url federatedInstancesSchema st1 of
        (Inl e, st2) \<Rightarrow> (requests st2, [], Some e)
      | (Inr federatedInstances, st2) \<Rightarrow>
          (let queued = explore_cralwer (parseISO P) one_month_ago federatedInstances
           in (case get_cralwer P tr site_url siteSchema st2 of
                 (Inl e, st3) \<Rightarrow> (requests st3, queued, Some e)
               | (Inr site, st3) \<Rightarrow> (requests st3, queued, None))))"

definition processQueueItem_try :: "platform \<Rightarrow> interval \<Rightarrow> transport \<Rightarrow> string
    \<Rightarrow> string list \<times> string list \<times> error option" where
  "processQueueItem_try P one_month_ago tr instance0 =
     (let instance = normalizeInstance_cralwer instance0;
          st0 = \<lparr>clock = 0, requests = []\<rparr>
      in (case URL_host P instance of
            None \<Rightarrow> ([], [], Some InvalidURL)
          | Some host' \<Rightarrow>
              (case get_cralwer P tr (instance @ ''/nodeinfo/2.1'') nodeInfoSchema st0 of
                 (Inl e, st1) \<Rightarrow> (requests st1, [], Some e)
               | (Inr nodeInfo, st1) \<Rightarrow>
                   (case software_name nodeInfo of
                      Lemmy \<Rightarrow>
                        (if startsWith (software_version nodeInfo) ''1.''
                         then (requests st1, [], None)
                         else fetch_and_explore P one_month_ago tr
                                (instance @ ''/api/v3/federated_instances'')
                                (instance @ ''/api/v3/site'') lemmySiteV3_cralwer st1)
                    | Piefed \<Rightarrow>
                        fetch_and_explore P one_month_ago tr
                          (instance @ ''/api/v1/federated_instances'')
                          (instance @ ''/api/alpha/site'') pieFedSiteV3_cralwer st1))))"

text \<open>
  The function that \<^verbatim>\<open>cralwer.ts\<close> hands to \<^verbatim>\<open>_.memoize\<close>: the promise it
  returns settles with \<^verbatim>\<open>null\<close> when the block threw and with \<^verbatim>\<open>undefined\<close>
  otherwise, or it would reject.
\<close>

datatype settlement = Fulfilled_undefined | Fulfilled_null | Rejected error

definition processQueueItem_func :: "platform \<Rightarrow> interval \<Rightarrow> transport \<Rightarrow> string
    \<Rightarrow> string list \<times> string list \<times> settlement" where
  "processQueueItem_func P one_month_ago tr instance =
     (case processQueueItem_try P one_month_ago tr instance of
        (requested', queued, Some e) \<Rightarrow> (requested', queued, Fulfilled_null)
      | (requested', queued, None) \<Rightarrow> (requested', queued, Fulfilled_undefined))"

text \<open>
  \<^verbatim>\<open>processQueueItem\<close> is that function memoized: \<^verbatim>\<open>_.memoize\<close> keeps a cache
  keyed by the argument as it is passed. A call with an argument of the cache returns
  the promise of the first call, and the function is not run: nothing is requested and
  nothing is queued. Any other call runs the function and stores its promise.
\<close>

definition processQueueItem :: "platform \<Rightarrow> interval \<Rightarrow> transport \<Rightarrow> (string \<rightharpoonup> settlement)
    \<Rightarrow> string \<Rightarrow> (string list \<times> string list \<times> settlement) \<times> (string \<rightharpoonup> settlement)" where
  "processQueueItem P one_month_ago tr cache instance =
     (case cache instance of
        Some promise \<Rightarrow> (([], [], promise), cache)
      | None \<Rightarrow>
          (let result = processQueueItem_func P one_month_ago tr instance
           in (result, cache(instance \<mapsto> snd (snd result)))))"

section \<open>A small federation for the examples\<close>

text \<open>
  Response bodies, and what \<^verbatim>\<open>JSON.parse\<close> makes of them. Node metadata first.
\<close>

definition body_nodeinfo_lemmy_0_19 :: string where
  \<open>body_nodeinfo_lemmy_0_19 = ''{"software":{"name":"lemmy","version":"0.19.3"}}''\<close>

definition body_nodeinfo_lemmy_1_4 :: string where
  \<open>body_nodeinfo_lemmy_1_4 = ''{"software":{"name":"lemmy","version":"1.4.0"}}''\<close>

definition body_nodeinfo_lemmy_2_0 :: string where
  \<open>body_nodeinfo_lemmy_2_0 = ''{"software":{"name":"lemmy","version":"2.0.0"}}''\<close>

definition body_nodeinfo_piefed :: string where
  \<open>body_nodeinfo_piefed = ''{"software":{"name":"piefed","version":"1.2"}}''\<close>

definition body_nodeinfo_mastodon :: string where
  \<open>body_nodeinfo_mastodon = ''{"software":{"name":"mastodon","version":"4.2.0"}}''\<close>

definition json_nodeinfo :: "string \<Rightarrow> string \<Rightarrow> json" where
  "json_nodeinfo n v = JObject [(''software'', JObject [(''name'', JString n), (''version'', JString v)])]"

text \<open>Peer lists: an empty one, and one that names the same host under two schemes.\<close>

definition body_no_peers :: string where
  \<open>body_no_peers = ''{"federated_instances":{"linked":[]}}''\<close>

definition body_two_schemes :: string where
  \<open>body_two_schemes = ''{"federated_instances":{"linked":[{"domain":"a.example","software":"lemmy","updated":"2025-12-03T00:00:00Z"},{"domain":"http://a.example","software":"lemmy","updated":"2025-12-03T00:00:00Z"}]}}''\<close>

definition json_peers :: "json list \<Rightarrow> json" where
  "json_peers ls = JObject [(''federated_instances'', JObject [(''linked'', JArray ls)])]"

definition json_peer :: "string \<Rightarrow> json" where
  "json_peer d = JObject [(''domain'', JString d), (''software'', JString ''lemmy''),
     (''updated'', JString ''2025-12-03T00:00:00Z'')]"

text \<open>Site metadata with 19, 20 and 50 monthly users, and a private site.\<close>

definition body_site_19 :: string where
  \<open>body_site_19 = ''{"site_view":{"site":{},"local_site":{"registration_mode":"Open","private_instance":false},"counts":{"users_active_month":19}}}''\<close>

definition body_site_20 :: string where
  \<open>body_site_20 = ''{"site_view":{"site":{},"local_site":{"registration_mode":"Open","private_instance":false},"counts":{"users_active_month":20}}}''\<close>

definition body_site_50 :: string where
  \<open>body_site_50 = ''{"site_view":{"site":{},"local_site":{"registration_mode":"Open","private_instance":false},"counts":{"users_active_month":50}}}''\<close>

definition body_site_private :: string where
  \<open>body_site_private = ''{"site_view":{"site":{},"local_site":{"registration_mode":"Open","private_instance":true},"counts":{"users_active_month":5000}}}''\<close>

definition json_site :: "real \<Rightarrow> bool \<Rightarrow> json" where
  "json_site mau priv =
     JObject [(''site_view'', JObject
       [(''site'', JObject []),
        (''local_site'', JObject [(''registration_mode'', JString ''Open''),
                                  (''private_instance'', JBool priv)]),
        (''counts'', JObject [(''users_active_month'', JNumber mau)])])]"

definition example_JSON_parse :: "string \<Rightarrow> json option" where
  "example_JSON_parse = map_of
     [(body_nodeinfo_lemmy_0_19, json_nodeinfo ''lemmy'' ''0.19.3''),
      (body_nodeinfo_lemmy_1_4, json_nodeinfo ''lemmy'' ''1.4.0''),
      (body_nodeinfo_lemmy_2_0, json_nodeinfo ''lemmy'' ''2.0.0''),
      (body_nodeinfo_piefed, json_nodeinfo ''piefed'' ''1.2''),
      (body_nodeinfo_mastodon, json_nodeinfo ''mastodon'' ''4.2.0''),
      (body_no_peers, json_peers []),
      (body_two_schemes, json_peers [json_peer ''a.example'', json_peer ''http://a.example'']),
      (body_site_19, json_site 19 False),
      (body_site_20, json_site 20 False),
      (body_site_50, json_site 50 False),
      (body_site_private, json_site 5000 True)]"

text \<open>The host of \<^verbatim>\<open>new URL\<close> on the addresses of the examples.\<close>

definition example_URL_host :: "string \<Rightarrow> string option" where
  "example_URL_host = map_of
     [(''https://lemmy.world'', ''lemmy.world''),
      (''https://a.example'', ''a.example''),
      (''http://a.example'', ''a.example''),
      (''https://old.example'', ''old.example''),
      (''https://new.example'', ''new.example''),
      (''https://masto.example'', ''masto.example''),
      (''https://small.example'', ''small.example''),
      (''https://private.example'', ''private.example''),
      (''https://slow.example'', ''slow.example'')]"

definition example_platform :: platform where
  "example_platform =
     \<lparr>URL_host = example_URL_host, JSON_parse = example_JSON_parse, parseISO = example_parseISO\<rparr>"

text \<open>
  A transport that answers from a table of URL, latency, status and body, whatever was
  requested before, and fails to connect for any other URL.
\<close>

definition serve :: "(string \<times> nat \<times> nat \<times> string) list \<Rightarrow> transport" where
  "serve table history url' =
     (case map_of table url' of
        Some (latency, status, b) \<Rightarrow> (latency, Inr \<lparr>statusCode = status, body = b\<rparr>)
      | None \<Rightarrow> (30, Inl (TransportError ''ENOTFOUND'')))"

definition example_net :: transport where
  "example_net = serve
     [(''https://lemmy.world/nodeinfo/2.1'', 100, 200, body_nodeinfo_lemmy_0_19),
      (''https://lemmy.world/api/v3/federated_instances'', 400, 200, body_two_schemes),
      (''https://lemmy.world/api/v3/site'', 100, 200, body_site_50),
      (''https://a.example/nodeinfo/2.1'', 100, 200, body_nodeinfo_lemmy_0_19),
      (''https://a.example/api/v3/federated_instances'', 100, 200, body_no_peers),
      (''https://a.example/api/v3/site'', 100, 200, body_site_50),
      (''http://a.example/nodeinfo/2.1'', 100, 200, body_nodeinfo_lemmy_0_19),
      (''http://a.example/api/v3/federated_instances'', 100, 200, body_no_peers),
      (''http://a.example/api/v3/site'', 100, 200, body_site_50),
      (''https://old.example/nodeinfo/2.1'', 100, 200, body_nodeinfo_lemmy_1_4),
      (''https://new.example/nodeinfo/2.1'', 100, 200, body_nodeinfo_lemmy_2_0),
      (''https://new.example/api/v3/federated_instances'', 100, 200, body_no_peers),
      (''https://new.example/api/v3/site'', 100, 200, body_site_20),
      (''https://masto.example/nodeinfo/2.1'', 100, 200, body_nodeinfo_mastodon),
      (''https://small.example/nodeinfo/2.1'', 100, 200, body_nodeinfo_piefed),
      (''https://small.example/api/v3/federated_instances'', 100, 200, body_no_peers),
      (''https://small.example/api/v3/site'', 100, 200, body_site_19),
      (''https://private.example/nodeinfo/2.1'', 100, 200, body_nodeinfo_lemmy_0_19),
      (''https://private.example/api/v3/federated_instances'', 100, 200, body_no_peers),
      (''https://private.example/api/v3/site'', 100, 200, body_site_private)]"


definition window :: interval where
  "window = ONE_MONTH_AGO load_time load_time"

text \<open>Records and toy serializers for the snapshot examples.\<close>

definition example_instance :: "string \<Rightarrow> Instance" where
  "example_instance h =
     \<lparr>url = ''https://'' @ h, host = h, description = Undefined, icon = Undefined,
      instance_software = Lemmy, registrationMode = ''Open''\<rparr>"

definition example_stringify_pretty :: "Instance list \<Rightarrow> string" where
  "example_stringify_pretty xs = concat (map (\<lambda>i. url i @ [CHR 0x0A]) xs)"

definition example_stringify :: "Instance list \<Rightarrow> string" where
  "example_stringify xs = concat (map url xs)"

section \<open>The request queue and the crawler\<close>












section \<open>The snapshot writer\<close>

text \<open>
  \<^verbatim>\<open>_.sortBy(items, 'host')\<close> is a stable sort, ascending in the order of strings
  (code unit by code unit). \<^verbatim>\<open>JSON.stringify\<close>, with and without indentation, is a
  parameter.
\<close>

definition sortBy :: "('a \<Rightarrow> string) \<Rightarrow> 'a list \<Rightarrow> 'a list" where
  "sortBy iteratee collection = sort_key iteratee collection"

record output_files =
  instances_json :: string
  instances_min_json :: string

text \<open>The function \<^verbatim>\<open>write\<close> of \<^verbatim>\<open>crawl\<close>, given the items of the dataset.\<close>

definition write_snapshot :: "(Instance list \<Rightarrow> string) \<Rightarrow> (Instance list \<Rightarrow> string) \<Rightarrow> Instance list
    \<Rightarrow> output_files" where
  "write_snapshot stringify_pretty stringify items =
     (let sorted' = sortBy host items
      in \<lparr>instances_json = stringify_pretty sorted', instances_min_json = stringify sorted'\<rparr>)"

section \<open>Timers and termination\<close>

text \<open>
  What \<^verbatim>\<open>crawl\<close> sets up around \<^verbatim>\<open>crawler.run\<close>: the interval \<open>id2\<close> that writes a
  snapshot every 10 seconds, and the timeout \<open>id1\<close> of 20 minutes that clears the
  interval and aborts the pool. The events are the interval elapsing, the timeout
  elapsing, and the promise of \<^verbatim>\<open>crawler.run\<close> resolving (the frontier has drained,
  or the pool was aborted), after which \<^verbatim>\<open>crawl\<close> clears the timeout and writes once
  more. A cleared timer does not fire.
\<close>

datatype snapshot = Periodic | Final

datatype event = IntervalElapsed | TimeoutElapsed | RunResolved

record crawl_process =
  id2_armed :: bool
  id1_armed :: bool
  pool_aborted :: bool
  run_resolved :: bool
  writes :: "snapshot list"

definition crawl_started :: crawl_process where
  "crawl_started =
     \<lparr>id2_armed = True, id1_armed = True, pool_aborted = False, run_resolved = False,
      writes = []\<rparr>"

fun fire :: "event \<Rightarrow> crawl_process \<Rightarrow> crawl_process" where
  "fire IntervalElapsed c =
     (if id2_armed c then c\<lparr>writes := writes c @ [Periodic]\<rparr> else c)"
| "fire TimeoutElapsed c =
     (if id1_armed c then c\<lparr>id1_armed := False, id2_armed := False, pool_aborted := True\<rparr> else c)"
| "fire RunResolved c =
     (if run_resolved c then c
      else c\<lparr>run_resolved := True, id1_armed := False, writes := writes c @ [Final]\<rparr>)"

fun fire_all :: "event list \<Rightarrow> crawl_process \<Rightarrow> crawl_process" where
  "fire_all [] c = c"
| "fire_all (e # es) c = fire_all es (fire e c)"

section \<open>Invariants of a crawl\<close>



section \<open>Facts about suffix removal and trimming\<close>


lemma dropWhileEnd_id:
  "s = [] \<or> \<not> P (last s) \<Longrightarrow> dropWhileEnd P s = s"
proof (cases s rule: rev_cases)
  case Nil
  then show ?thesis by (simp add: dropWhileEnd_def)
next
  case (snoc ys y)
  assume "s = [] \<or> \<not> P (last s)"
  with snoc show ?thesis by (simp add: dropWhileEnd_def)
qed

lemma dropWhileEnd_last:
  "dropWhileEnd P s \<noteq> [] \<Longrightarrow> \<not> P (last (dropWhileEnd P s))"
proof -
  assume ne: "dropWhileEnd P s \<noteq> []"
  then have "dropWhile P (rev s) \<noteq> []" by (simp add: dropWhileEnd_def)
  then have "\<not> P (hd (dropWhile P (rev s)))" by (rule hd_dropWhile)
  moreover have "last (dropWhileEnd P s) = hd (dropWhile P (rev s))"
    using ne by (simp add: dropWhileEnd_def last_rev)
  ultimately show ?thesis by simp
qed






lemma trim_id:
  "s \<noteq> [] \<Longrightarrow> \<not> isWhiteSpace (hd s) \<Longrightarrow> \<not> isWhiteSpace (last s) \<Longrightarrow> trim s = s"
  by (cases s) (simp_all add: trim_def dropWhileEnd_id)

lemma http_not_space:
  "\<not> isWhiteSpace (hd ''http'')" "\<not> isWhiteSpace (last ''http'')"
  "\<not> isWhiteSpace (last ''https:'')" "\<not> isWhiteSpace (last ''https://'')"
  by (simp_all add: isWhiteSpace_def)
















lemmas string_eval =
  isWhiteSpace_def dropWhileEnd_def trim_def startsWith_def toLowerCase_def
  toLowerCase_char_def isSupportedSoftware_def strip_trailing_slashes_def
  normalizeInstance_def normalizeInstance_cralwer_def

lemma dropWhileEnd_is_prefix: "prefix (dropWhileEnd P s) s"
proof -
  have "rev (takeWhile P (rev s) @ dropWhile P (rev s)) = rev (rev s)"
    by (simp only: takeWhile_dropWhile_id)
  then have "rev (dropWhile P (rev s)) @ rev (takeWhile P (rev s)) = s"
    by (simp only: rev_append rev_rev_ident)
  then have "s = dropWhileEnd P s @ rev (takeWhile P (rev s))"
    by (simp add: dropWhileEnd_def)
  then show ?thesis by (metis prefixI)
qed

lemma trim_ends:
  assumes "trim s \<noteq> []"
  shows "\<not> isWhiteSpace (hd (trim s))" and "\<not> isWhiteSpace (last (trim s))"
proof -
  let ?d = "dropWhile isWhiteSpace s"
  show "\<not> isWhiteSpace (last (trim s))"
    using assms unfolding trim_def by (rule dropWhileEnd_last)
  obtain r where r: "?d = trim s @ r"
    using dropWhileEnd_is_prefix [of isWhiteSpace ?d] by (auto simp: trim_def prefix_def)
  with assms have "?d \<noteq> []" and "hd (trim s) = hd ?d" by auto
  then show "\<not> isWhiteSpace (hd (trim s))"
    using hd_dropWhile [of isWhiteSpace s] by simp
qed

lemma trim_trim: "trim (trim s) = trim s"
proof (cases "trim s = []")
  case True
  have "trim [] = []" by (simp add: trim_def dropWhileEnd_def)
  with True show ?thesis by simp
next
  case False
  then show ?thesis using trim_ends [OF False] by (simp add: trim_id)
qed

text \<open>
  The variant of \<^verbatim>\<open>cralwer.ts\<close> keeps the trailing slashes, and a second pass
  changes nothing.
\<close>

lemma normalizeInstance_cralwer_keeps_slash:
  "normalizeInstance_cralwer ''lemmy.world/'' = ''https://lemmy.world/''"
  by (simp add: string_eval)

lemma normalizeInstance_cralwer_idem:
  "normalizeInstance_cralwer (normalizeInstance_cralwer x) = normalizeInstance_cralwer x"
proof (cases "startsWith (trim x) ''http''")
  case True
  then show ?thesis by (simp add: normalizeInstance_cralwer_def trim_trim)
next
  case False
  let ?y = "''https://'' @ trim x"
  have "\<not> isWhiteSpace (last ?y)"
    using trim_ends(2) [of x] by (cases "trim x = []") (simp_all add: isWhiteSpace_def)
  then have "trim ?y = ?y"
    by (intro trim_id) (simp_all add: isWhiteSpace_def)
  moreover have "startsWith ?y ''http''" by (simp add: startsWith_def)
  ultimately show ?thesis
    using False by (simp add: normalizeInstance_cralwer_def)
qed

section \<open>Facts about the recency window\<close>

lemma isSupportedSoftware_nonempty: "isSupportedSoftware sw \<Longrightarrow> sw \<noteq> []"
  by (auto simp: string_eval)

lemma dateLessThanOneMonthAgo_iff:
  assumes "now1 \<le> now2"
  shows "dateLessThanOneMonthAgo parse (ONE_MONTH_AGO now1 now2) date
           \<longleftrightarrow> (\<exists>t. parse date = Some t \<and> now1 - 30 * 86400000 \<le> t \<and> t \<le> now2)"
  using assms
  by (cases "parse date")
     (auto simp: dateLessThanOneMonthAgo_def isWithinInterval_def ONE_MONTH_AGO_def
        subDays_def Let_def)

lemmas date_eval =
  dateLessThanOneMonthAgo_def isWithinInterval_def ONE_MONTH_AGO_def subDays_def
  explore_filter_def explore_def spec_peer_admitted_def load_time_def
  example_parseISO_def peer_updated_during_crawl_def peer_29_days_def
  peer_31_days_def peer_no_timestamp_def

section \<open>Facts about the protocol client and the handler\<close>

lemma get_state:
  "snd (get P tr url' schema st)
     = \<lparr>clock = clock st + fst (tr (requests st) url'), requests = requests st @ [url']\<rparr>"
  by (simp add: get_def sendRequest_def split: prod.splits sum.splits option.splits)

lemma get_result:
  "fst (get P tr url' schema st)
     = (case snd (tr (requests st) url') of
          Inl e \<Rightarrow> Inl e
        | Inr resp \<Rightarrow>
            (case JSON_parse P (body resp) of
               None \<Rightarrow> Inl SyntaxError
             | Some j \<Rightarrow> (case schema j of None \<Rightarrow> Inl ZodError | Some v \<Rightarrow> Inr v)))"
  by (simp add: get_def sendRequest_def split: prod.splits sum.splits option.splits)

lemma fetch_state:
  "requests (snd (fetch tr url' abort_after abort_error st)) = requests st @ [url']"
  by (simp add: fetch_def split: prod.splits)

lemma fetch_result:
  "fst (fetch tr url' abort_after abort_error st)
     = (if abort_after \<le> fst (tr (requests st) url') then Inl abort_error
        else snd (tr (requests st) url'))"
  by (simp add: fetch_def split: prod.splits)

lemma fetchWithTimeout_state:
  "requests (snd (fetchWithTimeout tr url' t st)) = requests st @ [url']"
  by (cases "tr (requests st) url'") (simp add: fetchWithTimeout_def fetch_def Let_def split: sum.splits)

lemma fetchWithTimeout_result:
  "fst (fetchWithTimeout tr url' t st)
     = (let timeoutMs = (case t of None \<Rightarrow> 5000 | Some n \<Rightarrow> n) in
        if timeoutMs \<le> fst (tr (requests st) url') then Inl (FetchTimedOut timeoutMs)
        else if snd (tr (requests st) url') = Inl AbortError then Inl (FetchTimedOut timeoutMs)
        else snd (tr (requests st) url'))"
  by (cases "tr (requests st) url'") (auto simp: fetchWithTimeout_def fetch_def Let_def split: sum.splits)

lemma fetchWithTimeout_default:
  "fetchWithTimeout tr url' None st = fetchWithTimeout tr url' (Some 5000) st"
  by (simp add: fetchWithTimeout_def)

lemma get_cralwer_state:
  "requests (snd (get_cralwer P tr url' schema st)) = requests st @ [url']"
  by (cases "tr (requests st) url'")
     (simp add: get_cralwer_def fetch_def split: sum.splits option.splits)

lemma get_cralwer_result:
  "fst (get_cralwer P tr url' schema st)
     = (if 5000 \<le> fst (tr (requests st) url') then Inl TimeoutError
        else case snd (tr (requests st) url') of
          Inl e \<Rightarrow> Inl e
        | Inr resp \<Rightarrow>
            (case JSON_parse P (body resp) of
               None \<Rightarrow> Inl SyntaxError
             | Some j \<Rightarrow> (case schema j of None \<Rightarrow> Inl ZodError | Some v \<Rightarrow> Inr v)))"
  by (cases "tr (requests st) url'")
     (auto simp: get_cralwer_def fetch_def split: sum.splits option.splits)



lemmas example_eval =
  body_nodeinfo_lemmy_0_19_def body_nodeinfo_lemmy_1_4_def body_nodeinfo_lemmy_2_0_def
  body_nodeinfo_piefed_def body_nodeinfo_mastodon_def json_nodeinfo_def body_no_peers_def
  body_two_schemes_def json_peers_def json_peer_def body_site_19_def body_site_20_def
  body_site_50_def body_site_private_def json_site_def example_JSON_parse_def
  example_URL_host_def example_platform_def serve_def example_net_def window_def

lemma get_requests:
  "get P tr url' schema st = (x, st') \<Longrightarrow> requests st' = requests st @ [url']"
  using get_state [of P tr url' schema st] by simp

lemma get_clock:
  "get P tr url' schema st = (x, st') \<Longrightarrow> clock st' = clock st + fst (tr (requests st) url')"
  using get_state [of P tr url' schema st] by simp

lemma nodeInfoSchema_unknown_name:
  assumes "z_field ''software'' z_object j = Some sw"
    and "property ''name'' sw = Some (JString n)" and "n \<noteq> ''lemmy''" and "n \<noteq> ''piefed''"
  shows "nodeInfoSchema j = None"
  using assms
  by (simp add: nodeInfoSchema_def z_field_def z_enum_software_def split: option.splits)

section \<open>Facts about the snapshot and the timers\<close>

lemma filter_key_distinct:
  "distinct (map f xs) \<Longrightarrow> k \<in> set xs \<Longrightarrow> filter (\<lambda>x. f k = f x) xs = [k]"
proof (induction xs)
  case Nil
  then show ?case by simp
next
  case (Cons x xs)
  show ?case
  proof (cases "k = x")
    case True
    have "filter (\<lambda>y. f x = f y) xs = []"
      using Cons.prems(1) by (auto simp: filter_empty_conv)
    with True show ?thesis by simp
  next
    case False
    with Cons.prems have k: "k \<in> set xs" by simp
    then have "f k \<in> f ` set xs" by simp
    moreover have "f x \<notin> f ` set xs" using Cons.prems(1) by simp
    ultimately have "f k \<noteq> f x" by metis
    with Cons k show ?thesis by simp
  qed
qed

lemma sortBy_order_independent:
  assumes "mset items' = mset items" and "distinct (map f items)"
  shows "sortBy f items' = sortBy f items"
proof -
  have d': "distinct (map f items')"
  proof -
    have "mset (map f items') = mset (map f items)"
      using assms(1) by (metis mset_map)
    with assms(2) show ?thesis by (metis mset_eq_imp_distinct_iff)
  qed
  have s: "set items' = set items"
    using assms(1) by (metis mset_eq_setD)
  have "sort_key f items' = sort_key f items"
  proof (rule properties_for_sort_key)
    show "mset (sort_key f items) = mset items'" using assms(1) by simp
  next
    fix k assume "k \<in> set (sort_key f items)"
    then have k: "k \<in> set items" by simp
    have "filter (\<lambda>x. f k = f x) (sort_key f items) = filter (\<lambda>x. f k = f x) items"
      using sort_key_stable [of f "f k" items] by (simp add: eq_commute)
    also have "\<dots> = [k]" using assms(2) k by (rule filter_key_distinct)
    also have "\<dots> = filter (\<lambda>x. f k = f x) items'"
      using filter_key_distinct [OF d', of k] k s by simp
    finally show "filter (\<lambda>x. f k = f x) (sort_key f items) = filter (\<lambda>x. f k = f x) items'" .
  next
    show "sorted (map f (sort_key f items))" by simp
  qed
  then show ?thesis by (simp add: sortBy_def)
qed

lemma fire_all_append: "fire_all (es @ es') c = fire_all es' (fire_all es c)"
  by (induction es arbitrary: c) simp_all

text \<open>
  When the deadline fires first, the writer is called once more, when the run
  resolves, and never again.
\<close>

lemma timed_out_writes_stop:
  assumes "\<not> id2_armed c" "run_resolved c"
  shows "writes (fire_all es c) = writes c"
  using assms
proof (induction es arbitrary: c)
  case Nil
  then show ?case by simp
next
  case (Cons e es)
  have "fire e c = c \<or> fire e c = c\<lparr>id1_armed := False, id2_armed := False, pool_aborted := True\<rparr>"
    using Cons.prems by (cases e) simp_all
  then show ?case
  proof
    assume "fire e c = c"
    with Cons show ?thesis by simp
  next
    assume f: "fire e c = c\<lparr>id1_armed := False, id2_armed := False, pool_aborted := True\<rparr>"
    have "writes (fire_all es (fire e c)) = writes (fire e c)"
      by (rule Cons.IH) (simp_all add: f Cons.prems)
    then show ?thesis by (simp add: f)
  qed
qed

text \<open>
  When the run resolves first, the interval stays armed: every later period writes
  another snapshot.
\<close>

lemma interval_fires:
  "id2_armed c \<Longrightarrow>
     fire_all (replicate n IntervalElapsed) c = c\<lparr>writes := writes c @ replicate n Periodic\<rparr>"
proof (induction n arbitrary: c)
  case 0
  then show ?case by simp
next
  case (Suc n)
  have "fire_all (replicate (Suc n) IntervalElapsed) c
          = fire_all (replicate n IntervalElapsed) (c\<lparr>writes := writes c @ [Periodic]\<rparr>)"
    using Suc.prems by simp
  also have "\<dots> = c\<lparr>writes := writes c @ [Periodic]\<rparr>
      \<lparr>writes := writes (c\<lparr>writes := writes c @ [Periodic]\<rparr>) @ replicate n Periodic\<rparr>"
    by (rule Suc.IH) (simp add: Suc.prems)
  finally show ?case by simp
qed

lemma drained_interval_keeps_firing:
  "fire_all (RunResolved # replicate n IntervalElapsed) crawl_started
     = \<lparr>id2_armed = True, id1_armed = False, pool_aborted = False, run_resolved = True,
        writes = Final # replicate n Periodic\<rparr>"
  by (simp add: crawl_started_def interval_fires)

lemma interval_cleared:
  "\<not> id2_armed c \<Longrightarrow> fire_all (replicate n IntervalElapsed) c = c"
  by (induction n) simp_all

text \<open>
  When the deadline fires first: the periods before it write their snapshots, the
  deadline clears the interval and aborts the pool, the run resolves and the final
  snapshot is written, and nothing is written after that, whatever happens.
\<close>

lemma deadline_first:
  "writes (fire_all (replicate n IntervalElapsed @ TimeoutElapsed # replicate m IntervalElapsed
       @ RunResolved # es) crawl_started)
     = replicate n Periodic @ [Final]"
proof -
  let ?c1 = "crawl_started\<lparr>writes := replicate n Periodic\<rparr>"
  let ?c2 = "?c1\<lparr>id1_armed := False, id2_armed := False, pool_aborted := True\<rparr>"
  let ?c3 = "?c2\<lparr>run_resolved := True, id1_armed := False, writes := writes ?c2 @ [Final]\<rparr>"
  have 1: "fire_all (replicate n IntervalElapsed) crawl_started = ?c1"
    using interval_fires [of crawl_started n] by (simp add: crawl_started_def)
  have 2: "fire TimeoutElapsed ?c1 = ?c2" by (simp add: crawl_started_def)
  have 3: "fire_all (replicate m IntervalElapsed) ?c2 = ?c2"
    by (rule interval_cleared) simp
  have 4: "fire RunResolved ?c2 = ?c3" by (simp add: crawl_started_def)
  have 5: "writes (fire_all es ?c3) = writes ?c3"
    by (rule timed_out_writes_stop) simp_all
  have "fire_all (replicate n IntervalElapsed @ TimeoutElapsed # replicate m IntervalElapsed
       @ RunResolved # es) crawl_started = fire_all es ?c3"
    unfolding fire_all_append fire_all.simps 1 2 3 4 fire_all_append by (rule refl)
  then show ?thesis using 5 by simp
qed

section \<open>Facts about the queue and the crawler\<close>
























text \<open>
  In \<^verbatim>\<open>cralwer.ts\<close> the handler catches whatever its block throws: its promise
  never rejects, so no failure reaches the queue that runs it, and a failed address
  ends with \<^verbatim>\<open>null\<close>, with no retry. The memoized function hands out those
  promises only, and a second call for the same argument requests nothing.
\<close>

lemma processQueueItem_func_never_rejects:
  "snd (snd (processQueueItem_func P w tr a)) \<noteq> Rejected e"
  by (simp add: processQueueItem_func_def split: prod.splits option.splits)

lemma processQueueItem_null_iff:
  "snd (snd (processQueueItem_func P w tr a)) = Fulfilled_null
     \<longleftrightarrow> (\<exists>e. snd (snd (processQueueItem_try P w tr a)) = Some e)"
  by (auto simp: processQueueItem_func_def split: prod.splits option.splits)

lemma processQueueItem_never_rejects:
  assumes "\<forall>k e. cache k \<noteq> Some (Rejected e)"
  shows "snd (snd (fst (processQueueItem P w tr cache a))) \<noteq> Rejected e"
    and "\<forall>k e. snd (processQueueItem P w tr cache a) k \<noteq> Some (Rejected e)"
  using assms processQueueItem_func_never_rejects [of P w tr a]
  by (auto simp: processQueueItem_def Let_def split: option.splits)

lemma processQueueItem_memoized:
  "processQueueItem P w tr' (snd (processQueueItem P w tr cache a)) a
     = (([], [], snd (snd (fst (processQueueItem P w tr cache a)))),
        snd (processQueueItem P w tr cache a))"
  by (simp add: processQueueItem_def Let_def split: option.splits)

lemma processQueueItem_unknown_software:
  "fst (processQueueItem example_platform window example_net Map.empty ''https://masto.example'')
     = ([''https://masto.example/nodeinfo/2.1''], [], Fulfilled_null)"
  by code_simp

section \<open>One record per address, not per host (C1)\<close>




section \<open>The qualification filter (C2)\<close>

text \<open>
  C2: when the handler has fetched the site metadata of a server (the node metadata
  named \<^verbatim>\<open>piefed\<close>, or \<^verbatim>\<open>lemmy\<close> with a version that does not start with
  \<^verbatim>\<open>1.\<close>, and the three requests succeeded), it pushes an Instance to the dataset
  iff the count of monthly active users is at least 20 and the private flag is false;
  the Instance carries the normalized address, its host and the site's fields.
\<close>

theorem qualification_filter:
  assumes "URL_host P (normalizeInstance a) = Some h"
    and "get P tr (normalizeInstance a @ ''/nodeinfo/2.1'') nodeInfoSchema
           \<lparr>clock = 0, requests = []\<rparr> = (Inr ni, st1)"
    and "\<not> (software_name ni = Lemmy \<and> startsWith (software_version ni) ''1.'')"
    and "get P tr (normalizeInstance a @ ''/api/v3/federated_instances'')
           federatedInstancesSchema st1 = (Inr fi, st2)"
    and "get P tr (normalizeInstance a @ ''/api/v3/site'') lemmySiteV3 st2 = (Inr s, st3)"
  shows "outcome (requestHandler P w tr a)
           = Inr (if users_active_month s \<ge> 20 \<and> \<not> private_instance s
                  then Some \<lparr>url = normalizeInstance a, host = h,
                              description = site_description s, icon = site_icon s,
                              instance_software = software_name ni,
                              registrationMode = registration_mode s\<rparr>
                  else None)
         \<and> ((\<exists>x. outcome (requestHandler P w tr a) = Inr (Some x))
              \<longleftrightarrow> users_active_month s \<ge> 20 \<and> \<not> private_instance s)"
  using assms
  by (cases "software_name ni")
     (simp_all add: requestHandler_def crawl_v3_def settle_def Let_def MIN_MAU_def
        pieFedSiteV3_def)

theorem qualification_filter_witness:
  "outcome (requestHandler example_platform window example_net ''https://small.example'')
     = Inr None
   \<and> outcome (requestHandler example_platform window example_net ''https://new.example'')
     = Inr (Some \<lparr>url = ''https://new.example'', host = ''new.example'',
                  description = Undefined, icon = Undefined, instance_software = Lemmy,
                  registrationMode = ''Open''\<rparr>)
   \<and> outcome (requestHandler example_platform window example_net ''https://private.example'')
     = Inr None"
proof -
  let ?st0 = "\<lparr>clock = 0, requests = []\<rparr>"
  have n: "normalizeInstance ''https://small.example'' = ''https://small.example''"
    "normalizeInstance ''https://new.example'' = ''https://new.example''"
    "normalizeInstance ''https://private.example'' = ''https://private.example''"
    by (simp_all add: string_eval)
  have h: "URL_host example_platform ''https://small.example'' = Some ''small.example''"
    "URL_host example_platform ''https://new.example'' = Some ''new.example''"
    "URL_host example_platform ''https://private.example'' = Some ''private.example''"
    by (simp_all add: example_platform_def example_URL_host_def)
  have small: "get example_platform example_net (''https://small.example'' @ ''/nodeinfo/2.1'')
        nodeInfoSchema ?st0
      = (Inr \<lparr>software_name = Piefed, software_version = ''1.2''\<rparr>,
         \<lparr>clock = 100, requests = [''https://small.example/nodeinfo/2.1'']\<rparr>)"
    "get example_platform example_net (''https://small.example'' @ ''/api/v3/federated_instances'')
        federatedInstancesSchema
        \<lparr>clock = 100, requests = [''https://small.example/nodeinfo/2.1'']\<rparr>
      = (Inr [], \<lparr>clock = 200, requests = [''https://small.example/nodeinfo/2.1'',
           ''https://small.example/api/v3/federated_instances'']\<rparr>)"
    "get example_platform example_net (''https://small.example'' @ ''/api/v3/site'') lemmySiteV3
        \<lparr>clock = 200, requests = [''https://small.example/nodeinfo/2.1'',
           ''https://small.example/api/v3/federated_instances'']\<rparr>
      = (Inr \<lparr>site_description = Undefined, site_icon = Undefined,
              registration_mode = ''Open'', private_instance = False,
              users_active_month = 19\<rparr>,
         \<lparr>clock = 300, requests = [''https://small.example/nodeinfo/2.1'',
           ''https://small.example/api/v3/federated_instances'',
           ''https://small.example/api/v3/site'']\<rparr>)"
    by code_simp+
  have new: "get example_platform example_net (''https://new.example'' @ ''/nodeinfo/2.1'')
        nodeInfoSchema ?st0
      = (Inr \<lparr>software_name = Lemmy, software_version = ''2.0.0''\<rparr>,
         \<lparr>clock = 100, requests = [''https://new.example/nodeinfo/2.1'']\<rparr>)"
    "get example_platform example_net (''https://new.example'' @ ''/api/v3/federated_instances'')
        federatedInstancesSchema
        \<lparr>clock = 100, requests = [''https://new.example/nodeinfo/2.1'']\<rparr>
      = (Inr [], \<lparr>clock = 200, requests = [''https://new.example/nodeinfo/2.1'',
           ''https://new.example/api/v3/federated_instances'']\<rparr>)"
    "get example_platform example_net (''https://new.example'' @ ''/api/v3/site'') lemmySiteV3
        \<lparr>clock = 200, requests = [''https://new.example/nodeinfo/2.1'',
           ''https://new.example/api/v3/federated_instances'']\<rparr>
      = (Inr \<lparr>site_description = Undefined, site_icon = Undefined,
              registration_mode = ''Open'', private_instance = False,
              users_active_month = 20\<rparr>,
         \<lparr>clock = 300, requests = [''https://new.example/nodeinfo/2.1'',
           ''https://new.example/api/v3/federated_instances'',
           ''https://new.example/api/v3/site'']\<rparr>)"
    by code_simp+
  have priv: "get example_platform example_net (''https://private.example'' @ ''/nodeinfo/2.1'')
        nodeInfoSchema ?st0
      = (Inr \<lparr>software_name = Lemmy, software_version = ''0.19.3''\<rparr>,
         \<lparr>clock = 100, requests = [''https://private.example/nodeinfo/2.1'']\<rparr>)"
    "get example_platform example_net (''https://private.example'' @ ''/api/v3/federated_instances'')
        federatedInstancesSchema
        \<lparr>clock = 100, requests = [''https://private.example/nodeinfo/2.1'']\<rparr>
      = (Inr [], \<lparr>clock = 200, requests = [''https://private.example/nodeinfo/2.1'',
           ''https://private.example/api/v3/federated_instances'']\<rparr>)"
    "get example_platform example_net (''https://private.example'' @ ''/api/v3/site'') lemmySiteV3
        \<lparr>clock = 200, requests = [''https://private.example/nodeinfo/2.1'',
           ''https://private.example/api/v3/federated_instances'']\<rparr>
      = (Inr \<lparr>site_description = Undefined, site_icon = Undefined,
              registration_mode = ''Open'', private_instance = True,
              users_active_month = 5000\<rparr>,
         \<lparr>clock = 300, requests = [''https://private.example/nodeinfo/2.1'',
           ''https://private.example/api/v3/federated_instances'',
           ''https://private.example/api/v3/site'']\<rparr>)"
    by code_simp+
  have v: "\<not> startsWith ''2.0.0'' ''1.''" "\<not> startsWith ''0.19.3'' ''1.''"
    by (simp_all add: startsWith_def)
  have 1: "outcome (requestHandler example_platform window example_net
             ''https://small.example'') = Inr None"
    using qualification_filter [of example_platform "''https://small.example''",
        unfolded n, OF h(1) small(1) _ small(2) small(3), of window]
    by simp
  have 2: "outcome (requestHandler example_platform window example_net
             ''https://new.example'')
     = Inr (Some \<lparr>url = ''https://new.example'', host = ''new.example'',
                  description = Undefined, icon = Undefined, instance_software = Lemmy,
                  registrationMode = ''Open''\<rparr>)"
    using qualification_filter [of example_platform "''https://new.example''",
        unfolded n, OF h(2) new(1) _ new(2) new(3), of window] v
    by simp
  have 3: "outcome (requestHandler example_platform window example_net
             ''https://private.example'') = Inr None"
    using qualification_filter [of example_platform "''https://private.example''",
        unfolded n, OF h(3) priv(1) _ priv(2) priv(3), of window] v
    by simp
  show ?thesis using 1 2 3 by simp
qed

section \<open>The recency and support filter (C3)\<close>

text \<open>
  C3 as the specification states it measures the window from the instant at which the
  filter is evaluated. The code measures it from the instant at which the module was
  loaded: a peer updated one minute after the load is excluded by a filter evaluated
  five minutes after the load, although its timestamp lies within the 30 days before
  the evaluation.
\<close>

theorem explore_filter_window_counterexample:
  "\<not> explore_filter example_parseISO (ONE_MONTH_AGO load_time load_time)
        peer_updated_during_crawl
   \<and> spec_peer_admitted example_parseISO (load_time + 300000) peer_updated_during_crawl"
  by (simp add: date_eval string_eval)

text \<open>
  C3 (amended): a link of a fetched peer list is admitted for further crawling iff its
  software field is present and is a supported kind, and its timestamp (\<open>updated\<close> when
  that field is present, otherwise \<open>published\<close>) is present, not empty, and parses to
  an instant of the closed interval from 30 days before the load of the date module to
  that load; the addresses enqueued are the normalized domains of the admitted links,
  in the order of the list. The window does not move while the crawl runs.
\<close>

theorem explore_admits_iff:
  assumes "now1 \<le> now2"
  shows "(explore_filter parse (ONE_MONTH_AGO now1 now2) l
            \<longleftrightarrow> (\<exists>sw. software l = Some sw \<and> isSupportedSoftware sw)
                \<and> (\<exists>u t. (case updated l of Some u \<Rightarrow> Some u | None \<Rightarrow> published l) = Some u
                      \<and> u \<noteq> [] \<and> parse u = Some t
                      \<and> now1 - 30 * 86400000 \<le> t \<and> t \<le> now2))
         \<and> explore parse (ONE_MONTH_AGO now1 now2) ls
             = map (\<lambda>l. normalizeInstance (domain l))
                 (filter (explore_filter parse (ONE_MONTH_AGO now1 now2)) ls)"
proof -
  have "explore_filter parse (ONE_MONTH_AGO now1 now2) l
          \<longleftrightarrow> (\<exists>sw. software l = Some sw \<and> isSupportedSoftware sw)
              \<and> (\<exists>u. (case updated l of Some u \<Rightarrow> Some u | None \<Rightarrow> published l) = Some u
                    \<and> u \<noteq> [] \<and> dateLessThanOneMonthAgo parse (ONE_MONTH_AGO now1 now2) u)"
    using isSupportedSoftware_nonempty
    by (auto simp: explore_filter_def Let_def split: option.splits)
  then show ?thesis
    by (simp add: dateLessThanOneMonthAgo_iff [OF assms] explore_def)
qed

theorem explore_admits_iff_witness:
  "load_time \<le> load_time
   \<and> explore_filter example_parseISO (ONE_MONTH_AGO load_time load_time) peer_29_days
   \<and> \<not> explore_filter example_parseISO (ONE_MONTH_AGO load_time load_time) peer_31_days
   \<and> \<not> explore_filter example_parseISO (ONE_MONTH_AGO load_time load_time) peer_no_timestamp
   \<and> explore example_parseISO (ONE_MONTH_AGO load_time load_time)
        [peer_31_days, peer_29_days, peer_no_timestamp] = [''https://b.example'']"
proof -
  have h: "load_time \<le> load_time" by simp
  have s: "isSupportedSoftware ''Lemmy''" "isSupportedSoftware ''lemmy''"
    "isSupportedSoftware ''piefed''"
    by code_simp+
  have n: "normalizeInstance (domain peer_29_days) = ''https://b.example''"
    by (simp add: string_eval peer_29_days_def)
  have f: "explore_filter example_parseISO (ONE_MONTH_AGO load_time load_time) peer_29_days"
    "\<not> explore_filter example_parseISO (ONE_MONTH_AGO load_time load_time) peer_31_days"
    "\<not> explore_filter example_parseISO (ONE_MONTH_AGO load_time load_time) peer_no_timestamp"
    using explore_admits_iff [OF h, of example_parseISO peer_29_days "[]"]
      explore_admits_iff [OF h, of example_parseISO peer_31_days "[]"]
      explore_admits_iff [OF h, of example_parseISO peer_no_timestamp "[]"]
    by (simp_all add: s peer_29_days_def peer_31_days_def peer_no_timestamp_def
          example_parseISO_def load_time_def)
  show ?thesis
    using explore_admits_iff
      [OF h, of example_parseISO peer_29_days "[peer_31_days, peer_29_days, peer_no_timestamp]"]
    by (simp add: f n)
qed

section \<open>The address normalizer (C4)\<close>




section \<open>The dispatcher (C5)\<close>

text \<open>
  C5 as the specification states it drops an address whose software name is not
  recognized without treating it as an error. In the code the schema of the node
  metadata admits the two names only, so the validation throws: the handler fails with
  a validation error, which the crawler treats like any other failure of a task.
\<close>

theorem unknown_software_counterexample:
  "requestHandler example_platform window example_net ''https://masto.example''
     = \<lparr>requested = [''https://masto.example/nodeinfo/2.1''], explored = None,
        finished = 100, outcome = Inl ZodError\<rparr>"
  by code_simp

text \<open>
  C5 (amended): the handler branches on the software name and version of the node
  metadata. For \<^verbatim>\<open>lemmy\<close> with a version that starts with \<^verbatim>\<open>1.\<close> it requests
  nothing further, discovers no peer and pushes no record. For \<^verbatim>\<open>lemmy\<close> with a
  version that does not start with \<^verbatim>\<open>1.\<close> (every version from 2 on, \<^verbatim>\<open>2.0.0\<close>
  for one) it runs the full v3 branch. It requests the federated instances of v3, and
  fails with the error of that request if there is one, having explored nothing.
  Otherwise it explores the peers (the normalized domains of the links that the
  recency and support filter admits go to the queue) and requests the site of v3; it
  fails with the error of that request if there is one, and otherwise qualifies the
  server: it pushes the record of the address, with the software \<^verbatim>\<open>lemmy\<close>, iff
  the count of monthly active users is at least 20 and the site is not private. These
  three requests are the only ones it makes, in this order.
  For a software name other than \<^verbatim>\<open>lemmy\<close> and \<^verbatim>\<open>piefed\<close> the validation of the
  node metadata fails: the handler ends with a validation error, having requested
  nothing further, discovered no peer and pushed no record.
\<close>

theorem dispatcher_branches:
  assumes "URL_host P (normalizeInstance a) = Some h"
  shows "(\<forall>ni st1.
            get P tr (normalizeInstance a @ ''/nodeinfo/2.1'') nodeInfoSchema
              \<lparr>clock = 0, requests = []\<rparr> = (Inr ni, st1)
            \<and> software_name ni = Lemmy \<and> startsWith (software_version ni) ''1.''
            \<longrightarrow> requestHandler P w tr a
                  = \<lparr>requested = [normalizeInstance a @ ''/nodeinfo/2.1''], explored = None,
                     finished = clock st1, outcome = Inr None\<rparr>)
       \<and> (\<forall>ni st1.
            get P tr (normalizeInstance a @ ''/nodeinfo/2.1'') nodeInfoSchema
              \<lparr>clock = 0, requests = []\<rparr> = (Inr ni, st1)
            \<and> software_name ni = Lemmy \<and> \<not> startsWith (software_version ni) ''1.''
            \<longrightarrow>
              (\<forall>e st2.
                 get P tr (normalizeInstance a @ ''/api/v3/federated_instances'')
                   federatedInstancesSchema st1 = (Inl e, st2)
                 \<longrightarrow> requestHandler P w tr a
                       = \<lparr>requested = [normalizeInstance a @ ''/nodeinfo/2.1'',
                                       normalizeInstance a @ ''/api/v3/federated_instances''],
                          explored = None, finished = clock st2, outcome = Inl e\<rparr>)
              \<and> (\<forall>fi st2.
                 get P tr (normalizeInstance a @ ''/api/v3/federated_instances'')
                   federatedInstancesSchema st1 = (Inr fi, st2)
                 \<longrightarrow>
                   (\<forall>e st3.
                      get P tr (normalizeInstance a @ ''/api/v3/site'') lemmySiteV3 st2
                        = (Inl e, st3)
                      \<longrightarrow> requestHandler P w tr a
                            = \<lparr>requested = [normalizeInstance a @ ''/nodeinfo/2.1'',
                                            normalizeInstance a @ ''/api/v3/federated_instances'',
                                            normalizeInstance a @ ''/api/v3/site''],
                               explored = Some (clock st2, explore (parseISO P) w fi),
                               finished = clock st3, outcome = Inl e\<rparr>)
                   \<and> (\<forall>s st3.
                      get P tr (normalizeInstance a @ ''/api/v3/site'') lemmySiteV3 st2
                        = (Inr s, st3)
                      \<longrightarrow> requestHandler P w tr a
                            = \<lparr>requested = [normalizeInstance a @ ''/nodeinfo/2.1'',
                                            normalizeInstance a @ ''/api/v3/federated_instances'',
                                            normalizeInstance a @ ''/api/v3/site''],
                               explored = Some (clock st2, explore (parseISO P) w fi),
                               finished = clock st3,
                               outcome = Inr (if users_active_month s \<ge> 20
                                                 \<and> \<not> private_instance s
                                              then Some \<lparr>url = normalizeInstance a, host = h,
                                                     description = site_description s,
                                                     icon = site_icon s,
                                                     instance_software = Lemmy,
                                                     registrationMode = registration_mode s\<rparr>
                                              else None)\<rparr>)))
       \<and> (\<forall>latency resp j sw n.
            tr [] (normalizeInstance a @ ''/nodeinfo/2.1'') = (latency, Inr resp)
            \<and> JSON_parse P (body resp) = Some j
            \<and> z_field ''software'' z_object j = Some sw
            \<and> property ''name'' sw = Some (JString n) \<and> n \<noteq> ''lemmy'' \<and> n \<noteq> ''piefed''
            \<longrightarrow> requestHandler P w tr a
                  = \<lparr>requested = [normalizeInstance a @ ''/nodeinfo/2.1''], explored = None,
                     finished = latency, outcome = Inl ZodError\<rparr>)"
proof (intro conjI, goal_cases)
  case 1
  show ?case
  proof (intro allI impI)
    fix ni st1
    assume g: "get P tr (normalizeInstance a @ ''/nodeinfo/2.1'') nodeInfoSchema
                 \<lparr>clock = 0, requests = []\<rparr> = (Inr ni, st1)
               \<and> software_name ni = Lemmy \<and> startsWith (software_version ni) ''1.''"
    then have "requests st1 = [normalizeInstance a @ ''/nodeinfo/2.1'']"
      using get_requests [of P tr _ nodeInfoSchema "\<lparr>clock = 0, requests = []\<rparr>" "Inr ni" st1]
      by simp
    with g assms
    show "requestHandler P w tr a
            = \<lparr>requested = [normalizeInstance a @ ''/nodeinfo/2.1''], explored = None,
               finished = clock st1, outcome = Inr None\<rparr>"
      by (simp add: requestHandler_def settle_def Let_def)
  qed
next
  case 2
  show ?case
  proof (intro allI impI)
    fix ni st1
    assume g: "get P tr (normalizeInstance a @ ''/nodeinfo/2.1'') nodeInfoSchema
                 \<lparr>clock = 0, requests = []\<rparr> = (Inr ni, st1)
               \<and> software_name ni = Lemmy \<and> \<not> startsWith (software_version ni) ''1.''"
    then have r: "requests st1 = [normalizeInstance a @ ''/nodeinfo/2.1'']"
      using get_requests [of P tr _ nodeInfoSchema "\<lparr>clock = 0, requests = []\<rparr>" "Inr ni" st1]
      by simp
    from g assms
    have e: "requestHandler P w tr a
            = crawl_v3 P w tr (normalizeInstance a) h lemmySiteV3 Lemmy st1"
      by (simp add: requestHandler_def Let_def)
    show "(\<forall>e st2.
             get P tr (normalizeInstance a @ ''/api/v3/federated_instances'')
               federatedInstancesSchema st1 = (Inl e, st2)
             \<longrightarrow> requestHandler P w tr a
                   = \<lparr>requested = [normalizeInstance a @ ''/nodeinfo/2.1'',
                                   normalizeInstance a @ ''/api/v3/federated_instances''],
                      explored = None, finished = clock st2, outcome = Inl e\<rparr>)
          \<and> (\<forall>fi st2.
             get P tr (normalizeInstance a @ ''/api/v3/federated_instances'')
               federatedInstancesSchema st1 = (Inr fi, st2)
             \<longrightarrow>
               (\<forall>e st3.
                  get P tr (normalizeInstance a @ ''/api/v3/site'') lemmySiteV3 st2
                    = (Inl e, st3)
                  \<longrightarrow> requestHandler P w tr a
                        = \<lparr>requested = [normalizeInstance a @ ''/nodeinfo/2.1'',
                                        normalizeInstance a @ ''/api/v3/federated_instances'',
                                        normalizeInstance a @ ''/api/v3/site''],
                           explored = Some (clock st2, explore (parseISO P) w fi),
                           finished = clock st3, outcome = Inl e\<rparr>)
               \<and> (\<forall>s st3.
                  get P tr (normalizeInstance a @ ''/api/v3/site'') lemmySiteV3 st2
                    = (Inr s, st3)
                  \<longrightarrow> requestHandler P w tr a
                        = \<lparr>requested = [normalizeInstance a @ ''/nodeinfo/2.1'',
                                        normalizeInstance a @ ''/api/v3/federated_instances'',
                                        normalizeInstance a @ ''/api/v3/site''],
                           explored = Some (clock st2, explore (parseISO P) w fi),
                           finished = clock st3,
                           outcome = Inr (if users_active_month s \<ge> 20
                                             \<and> \<not> private_instance s
                                          then Some \<lparr>url = normalizeInstance a, host = h,
                                                 description = site_description s,
                                                 icon = site_icon s,
                                                 instance_software = Lemmy,
                                                 registrationMode = registration_mode s\<rparr>
                                          else None)\<rparr>))"
      unfolding e
    proof (intro conjI allI impI)
      fix e st2
      assume fed: "get P tr (normalizeInstance a @ ''/api/v3/federated_instances'')
                     federatedInstancesSchema st1 = (Inl e, st2)"
      then show "crawl_v3 P w tr (normalizeInstance a) h lemmySiteV3 Lemmy st1
                   = \<lparr>requested = [normalizeInstance a @ ''/nodeinfo/2.1'',
                                   normalizeInstance a @ ''/api/v3/federated_instances''],
                      explored = None, finished = clock st2, outcome = Inl e\<rparr>"
        using get_requests [OF fed] r by (simp add: crawl_v3_def settle_def)
    next
      fix fi st2 e st3
      assume fed: "get P tr (normalizeInstance a @ ''/api/v3/federated_instances'')
                     federatedInstancesSchema st1 = (Inr fi, st2)"
        and site: "get P tr (normalizeInstance a @ ''/api/v3/site'') lemmySiteV3 st2
                     = (Inl e, st3)"
      then show "crawl_v3 P w tr (normalizeInstance a) h lemmySiteV3 Lemmy st1
                   = \<lparr>requested = [normalizeInstance a @ ''/nodeinfo/2.1'',
                                   normalizeInstance a @ ''/api/v3/federated_instances'',
                                   normalizeInstance a @ ''/api/v3/site''],
                      explored = Some (clock st2, explore (parseISO P) w fi),
                      finished = clock st3, outcome = Inl e\<rparr>"
        using get_requests [OF fed] get_requests [OF site] r
        by (simp add: crawl_v3_def settle_def Let_def)
    next
      fix fi st2 s st3
      assume fed: "get P tr (normalizeInstance a @ ''/api/v3/federated_instances'')
                     federatedInstancesSchema st1 = (Inr fi, st2)"
        and site: "get P tr (normalizeInstance a @ ''/api/v3/site'') lemmySiteV3 st2
                     = (Inr s, st3)"
      then show "crawl_v3 P w tr (normalizeInstance a) h lemmySiteV3 Lemmy st1
                   = \<lparr>requested = [normalizeInstance a @ ''/nodeinfo/2.1'',
                                   normalizeInstance a @ ''/api/v3/federated_instances'',
                                   normalizeInstance a @ ''/api/v3/site''],
                      explored = Some (clock st2, explore (parseISO P) w fi),
                      finished = clock st3,
                      outcome = Inr (if users_active_month s \<ge> 20
                                        \<and> \<not> private_instance s
                                     then Some \<lparr>url = normalizeInstance a, host = h,
                                            description = site_description s,
                                            icon = site_icon s,
                                            instance_software = Lemmy,
                                            registrationMode = registration_mode s\<rparr>
                                     else None)\<rparr>"
        using get_requests [OF fed] get_requests [OF site] r
        by (simp add: crawl_v3_def settle_def Let_def MIN_MAU_def)
    qed
  qed
next
  case 3
  show ?case
  proof (intro allI impI)
    fix latency resp j sw n
    assume u: "tr [] (normalizeInstance a @ ''/nodeinfo/2.1'') = (latency, Inr resp)
               \<and> JSON_parse P (body resp) = Some j
               \<and> z_field ''software'' z_object j = Some sw
               \<and> property ''name'' sw = Some (JString n) \<and> n \<noteq> ''lemmy'' \<and> n \<noteq> ''piefed''"
    then have "nodeInfoSchema j = None"
      using nodeInfoSchema_unknown_name [of j sw n] by simp
    with u assms
    show "requestHandler P w tr a
            = \<lparr>requested = [normalizeInstance a @ ''/nodeinfo/2.1''], explored = None,
               finished = latency, outcome = Inl ZodError\<rparr>"
      by (simp add: requestHandler_def settle_def Let_def get_def sendRequest_def)
  qed
qed

theorem dispatcher_branches_witness:
  "requestHandler example_platform window example_net ''https://old.example''
     = \<lparr>requested = [''https://old.example/nodeinfo/2.1''], explored = None,
        finished = 100, outcome = Inr None\<rparr>
   \<and> requestHandler example_platform window example_net ''https://new.example''
     = \<lparr>requested = [''https://new.example/nodeinfo/2.1'',
                      ''https://new.example/api/v3/federated_instances'',
                      ''https://new.example/api/v3/site''],
        explored = Some (200, []), finished = 300,
        outcome = Inr (Some \<lparr>url = ''https://new.example'', host = ''new.example'',
                          description = Undefined, icon = Undefined,
                          instance_software = Lemmy, registrationMode = ''Open''\<rparr>)\<rparr>
   \<and> requestHandler example_platform window example_net ''https://lemmy.world''
     = \<lparr>requested = [''https://lemmy.world/nodeinfo/2.1'',
                      ''https://lemmy.world/api/v3/federated_instances'',
                      ''https://lemmy.world/api/v3/site''],
        explored = Some (500, [''https://a.example'', ''http://a.example'']), finished = 600,
        outcome = Inr (Some \<lparr>url = ''https://lemmy.world'', host = ''lemmy.world'',
                          description = Undefined, icon = Undefined,
                          instance_software = Lemmy, registrationMode = ''Open''\<rparr>)\<rparr>
   \<and> requestHandler example_platform window example_net ''https://masto.example''
     = \<lparr>requested = [''https://masto.example/nodeinfo/2.1''], explored = None,
        finished = 100, outcome = Inl ZodError\<rparr>"
proof -
  let ?st0 = "\<lparr>clock = 0, requests = []\<rparr>"
  have n: "normalizeInstance ''https://old.example'' = ''https://old.example''"
    "normalizeInstance ''https://new.example'' = ''https://new.example''"
    "normalizeInstance ''https://masto.example'' = ''https://masto.example''"
    "normalizeInstance ''https://lemmy.world'' = ''https://lemmy.world''"
    by (simp_all add: string_eval)
  have h: "URL_host example_platform ''https://old.example'' = Some ''old.example''"
    "URL_host example_platform ''https://new.example'' = Some ''new.example''"
    "URL_host example_platform ''https://masto.example'' = Some ''masto.example''"
    "URL_host example_platform ''https://lemmy.world'' = Some ''lemmy.world''"
    by (simp_all add: example_platform_def example_URL_host_def)
  have old: "get example_platform example_net (''https://old.example'' @ ''/nodeinfo/2.1'')
        nodeInfoSchema ?st0
      = (Inr \<lparr>software_name = Lemmy, software_version = ''1.4.0''\<rparr>,
         \<lparr>clock = 100, requests = [''https://old.example/nodeinfo/2.1'']\<rparr>)"
    by code_simp
  let ?new_ni = "\<lparr>software_name = Lemmy, software_version = ''2.0.0''\<rparr>"
  let ?new_st1 = "\<lparr>clock = 100, requests = [''https://new.example/nodeinfo/2.1'']\<rparr>"
  let ?new_st2 = "\<lparr>clock = 200, requests = [''https://new.example/nodeinfo/2.1'',
           ''https://new.example/api/v3/federated_instances'']\<rparr>"
  have new: "get example_platform example_net (''https://new.example'' @ ''/nodeinfo/2.1'')
        nodeInfoSchema ?st0 = (Inr ?new_ni, ?new_st1)"
    "get example_platform example_net (''https://new.example'' @ ''/api/v3/federated_instances'')
        federatedInstancesSchema ?new_st1 = (Inr [], ?new_st2)"
    "get example_platform example_net (''https://new.example'' @ ''/api/v3/site'') lemmySiteV3
        ?new_st2
      = (Inr \<lparr>site_description = Undefined, site_icon = Undefined,
              registration_mode = ''Open'', private_instance = False,
              users_active_month = 20\<rparr>,
         \<lparr>clock = 300, requests = [''https://new.example/nodeinfo/2.1'',
           ''https://new.example/api/v3/federated_instances'',
           ''https://new.example/api/v3/site'']\<rparr>)"
    by code_simp+
  let ?lw_ni = "\<lparr>software_name = Lemmy, software_version = ''0.19.3''\<rparr>"
  let ?lw_st1 = "\<lparr>clock = 100, requests = [''https://lemmy.world/nodeinfo/2.1'']\<rparr>"
  let ?lw_st2 = "\<lparr>clock = 500, requests = [''https://lemmy.world/nodeinfo/2.1'',
           ''https://lemmy.world/api/v3/federated_instances'']\<rparr>"
  let ?lw_fi = "[\<lparr>domain = ''a.example'', software = Some ''lemmy'', published = None,
                  updated = Some ''2025-12-03T00:00:00Z''\<rparr>,
                \<lparr>domain = ''http://a.example'', software = Some ''lemmy'', published = None,
                  updated = Some ''2025-12-03T00:00:00Z''\<rparr>]"
  have lw: "get example_platform example_net (''https://lemmy.world'' @ ''/nodeinfo/2.1'')
        nodeInfoSchema ?st0 = (Inr ?lw_ni, ?lw_st1)"
    "get example_platform example_net (''https://lemmy.world'' @ ''/api/v3/federated_instances'')
        federatedInstancesSchema ?lw_st1 = (Inr ?lw_fi, ?lw_st2)"
    "get example_platform example_net (''https://lemmy.world'' @ ''/api/v3/site'') lemmySiteV3
        ?lw_st2
      = (Inr \<lparr>site_description = Undefined, site_icon = Undefined,
              registration_mode = ''Open'', private_instance = False,
              users_active_month = 50\<rparr>,
         \<lparr>clock = 600, requests = [''https://lemmy.world/nodeinfo/2.1'',
           ''https://lemmy.world/api/v3/federated_instances'',
           ''https://lemmy.world/api/v3/site'']\<rparr>)"
    by code_simp+
  have ex: "explore (parseISO example_platform) window ?lw_fi
      = [''https://a.example'', ''http://a.example'']"
    "explore (parseISO example_platform) window [] = []"
    by code_simp+
  have masto: "example_net [] (''https://masto.example'' @ ''/nodeinfo/2.1'')
      = (100, Inr \<lparr>statusCode = 200, body = body_nodeinfo_mastodon\<rparr>)"
    "JSON_parse example_platform body_nodeinfo_mastodon
      = Some (json_nodeinfo ''mastodon'' ''4.2.0'')"
    "z_field ''software'' z_object (json_nodeinfo ''mastodon'' ''4.2.0'')
      = Some (JObject [(''name'', JString ''mastodon''), (''version'', JString ''4.2.0'')])"
    "property ''name'' (JObject [(''name'', JString ''mastodon''), (''version'', JString ''4.2.0'')])
      = Some (JString ''mastodon'')"
    by code_simp+
  have v: "startsWith ''1.4.0'' ''1.''" "\<not> startsWith ''2.0.0'' ''1.''"
    "\<not> startsWith ''0.19.3'' ''1.''"
    by (simp_all add: startsWith_def)
  have 1: "requestHandler example_platform window example_net ''https://old.example''
     = \<lparr>requested = [''https://old.example/nodeinfo/2.1''], explored = None,
        finished = 100, outcome = Inr None\<rparr>"
    using dispatcher_branches [of example_platform "''https://old.example''", unfolded n,
        OF h(1), of example_net window] old v
    by simp
  have 2: "requestHandler example_platform window example_net ''https://new.example''
     = \<lparr>requested = [''https://new.example/nodeinfo/2.1'',
                      ''https://new.example/api/v3/federated_instances'',
                      ''https://new.example/api/v3/site''],
        explored = Some (200, []), finished = 300,
        outcome = Inr (Some \<lparr>url = ''https://new.example'', host = ''new.example'',
                          description = Undefined, icon = Undefined,
                          instance_software = Lemmy, registrationMode = ''Open''\<rparr>)\<rparr>"
  proof -
    have p: "get example_platform example_net (''https://new.example'' @ ''/nodeinfo/2.1'')
            nodeInfoSchema ?st0 = (Inr ?new_ni, ?new_st1)
          \<and> software_name ?new_ni = Lemmy \<and> \<not> startsWith (software_version ?new_ni) ''1.''"
      using new(1) v by simp
    from dispatcher_branches [of example_platform "''https://new.example''", unfolded n,
        OF h(2), THEN conjunct2, THEN conjunct1, rule_format, OF p,
        THEN conjunct2, rule_format, OF new(2), THEN conjunct2, rule_format, OF new(3),
        of window]
    show ?thesis by (simp add: ex)
  qed
  have 3: "requestHandler example_platform window example_net ''https://lemmy.world''
     = \<lparr>requested = [''https://lemmy.world/nodeinfo/2.1'',
                      ''https://lemmy.world/api/v3/federated_instances'',
                      ''https://lemmy.world/api/v3/site''],
        explored = Some (500, [''https://a.example'', ''http://a.example'']), finished = 600,
        outcome = Inr (Some \<lparr>url = ''https://lemmy.world'', host = ''lemmy.world'',
                          description = Undefined, icon = Undefined,
                          instance_software = Lemmy, registrationMode = ''Open''\<rparr>)\<rparr>"
  proof -
    have p: "get example_platform example_net (''https://lemmy.world'' @ ''/nodeinfo/2.1'')
            nodeInfoSchema ?st0 = (Inr ?lw_ni, ?lw_st1)
          \<and> software_name ?lw_ni = Lemmy \<and> \<not> startsWith (software_version ?lw_ni) ''1.''"
      using lw(1) v by simp
    from dispatcher_branches [of example_platform "''https://lemmy.world''", unfolded n,
        OF h(4), THEN conjunct2, THEN conjunct1, rule_format, OF p,
        THEN conjunct2, rule_format, OF lw(2), THEN conjunct2, rule_format, OF lw(3),
        of window]
    show ?thesis by (simp add: ex)
  qed
  have 4: "requestHandler example_platform window example_net ''https://masto.example''
     = \<lparr>requested = [''https://masto.example/nodeinfo/2.1''], explored = None,
        finished = 100, outcome = Inl ZodError\<rparr>"
    using dispatcher_branches [of example_platform "''https://masto.example''", unfolded n,
        OF h(3), of example_net window] masto
    by simp
  have run: "finished (requestHandler example_platform window example_net
                 ''https://new.example'') = 300"
    "explored (requestHandler example_platform window example_net ''https://lemmy.world'')
       = Some (500, [''https://a.example'', ''http://a.example''])"
    by code_simp+
  show ?thesis using 1 2 3 4 run by blast
qed

section \<open>The snapshot is sorted by host (C6)\<close>

text \<open>
  C6: every call of the writer, periodic or final, sorts the items the dataset holds
  at that moment and serializes the sorted sequence into both files. The sequence is
  ascending by host and is a rearrangement of the items, whatever their order in the
  dataset; records with the same host keep their order of insertion; and when no two
  records share a host, two datasets with the same records in different orders give
  the same files.
\<close>

theorem snapshot_sorted_by_host:
  "instances_json (write_snapshot stringify_pretty stringify items)
     = stringify_pretty (sortBy host items)
   \<and> instances_min_json (write_snapshot stringify_pretty stringify items)
     = stringify (sortBy host items)
   \<and> sorted (map host (sortBy host items))
   \<and> mset (sortBy host items) = mset items
   \<and> (\<forall>k. filter (\<lambda>i. host i = k) (sortBy host items) = filter (\<lambda>i. host i = k) items)
   \<and> (mset items' = mset items \<and> distinct (map host items)
        \<longrightarrow> write_snapshot stringify_pretty stringify items'
            = write_snapshot stringify_pretty stringify items)"
  using sortBy_order_independent [of items' items host]
  by (simp add: write_snapshot_def Let_def sortBy_def sort_key_stable)

theorem snapshot_sorted_by_host_witness:
  "mset [example_instance ''b.example'', example_instance ''lemmy.world'',
         example_instance ''a.example'']
     = mset [example_instance ''lemmy.world'', example_instance ''a.example'',
             example_instance ''b.example'']
   \<and> distinct (map host [example_instance ''lemmy.world'', example_instance ''a.example'',
                          example_instance ''b.example''])
   \<and> map host (sortBy host [example_instance ''lemmy.world'', example_instance ''a.example'',
                             example_instance ''b.example''])
       = [''a.example'', ''b.example'', ''lemmy.world'']
   \<and> write_snapshot example_stringify_pretty example_stringify
        [example_instance ''b.example'', example_instance ''lemmy.world'',
         example_instance ''a.example'']
       = write_snapshot example_stringify_pretty example_stringify
           [example_instance ''lemmy.world'', example_instance ''a.example'',
            example_instance ''b.example'']"
proof -
  let ?xs = "[example_instance ''lemmy.world'', example_instance ''a.example'',
              example_instance ''b.example'']"
  let ?ys = "[example_instance ''b.example'', example_instance ''lemmy.world'',
              example_instance ''a.example'']"
  have m: "mset ?ys = mset ?xs" by simp
  have d: "distinct (map host ?xs)" by (simp add: example_instance_def)
  have s: "map host (sortBy host ?xs) = [''a.example'', ''b.example'', ''lemmy.world'']"
    by code_simp
  show ?thesis
    using snapshot_sorted_by_host
      [of example_stringify_pretty example_stringify ?xs ?ys] m d s
    by blast
qed

section \<open>Termination and the periodic snapshot (C7)\<close>

text \<open>
  C7 holds when the deadline fires first (lemma \<open>deadline_first\<close>). It fails
  when the frontier drains first: \<^verbatim>\<open>crawl\<close> clears the timeout and writes the final
  snapshot, but it does not clear the interval, so the periodic writer keeps running
  after the final snapshot. Here the interval elapses once during the crawl, the run
  resolves, and the interval elapses twice more.
\<close>

theorem drained_crawl_keeps_writing:
  "fire_all [IntervalElapsed, RunResolved, IntervalElapsed, IntervalElapsed] crawl_started
     = \<lparr>id2_armed = True, id1_armed = False, pool_aborted = False, run_resolved = True,
        writes = [Periodic, Final, Periodic, Periodic]\<rparr>"
  by (simp add: crawl_started_def)

section \<open>The protocol client (C8)\<close>

text \<open>
  C8 as the specification states it has the client signal an error on a status
  outside 2xx. Neither \<open>fetchWithTimeout\<close> nor the \<open>get\<close> built on \<^verbatim>\<open>fetch\<close> looks
  at the status: a response with status 500 is returned as a success, and its body,
  when it has the expected shape, is validated like any other.
\<close>

theorem status_not_inspected_counterexample:
  "fst (fetchWithTimeout
          (serve [(''https://lemmy.world/nodeinfo/2.1'', 100, 500, body_nodeinfo_lemmy_0_19)])
          ''https://lemmy.world/nodeinfo/2.1'' None \<lparr>clock = 0, requests = []\<rparr>)
     = Inr \<lparr>statusCode = 500, body = body_nodeinfo_lemmy_0_19\<rparr>
   \<and> fst (get_cralwer example_platform
          (serve [(''https://lemmy.world/nodeinfo/2.1'', 100, 500, body_nodeinfo_lemmy_0_19)])
          ''https://lemmy.world/nodeinfo/2.1'' nodeInfoSchema \<lparr>clock = 0, requests = []\<rparr>)
     = Inr \<lparr>software_name = Lemmy, software_version = ''0.19.3''\<rparr>"
  by code_simp

text \<open>
  C8 (amended): \<open>get\<close> sends exactly one request whatever comes of it (no retry at
  this layer). A failure of the transport (a timeout or a failed connection among
  them) comes back as the error the transport gave; a body that is not JSON gives a
  syntax error and a body of another shape a validation error; the status of the
  response is never inspected. The timeout that defaults to 5 seconds is that of
  \<open>fetchWithTimeout\<close>, and the \<open>get\<close> of \<^verbatim>\<open>cralwer.ts\<close> aborts after 5 seconds as
  well: a request that has not settled by then fails with a timeout error, one that
  settled before comes back as it settled, and each of the two sends one request.
\<close>

theorem protocol_client_errors:
  "requests (snd (get P tr u schema st)) = requests st @ [u]
   \<and> (\<forall>e. snd (tr (requests st) u) = Inl e \<longrightarrow> fst (get P tr u schema st) = Inl e)
   \<and> (\<forall>resp. snd (tr (requests st) u) = Inr resp \<longrightarrow>
         fst (get P tr u schema st)
           = (case JSON_parse P (body resp) of
                None \<Rightarrow> Inl SyntaxError
              | Some j \<Rightarrow> (case schema j of None \<Rightarrow> Inl ZodError | Some v \<Rightarrow> Inr v)))
   \<and> fetchWithTimeout tr u (Some 5000) st = fetchWithTimeout tr u None st
   \<and> requests (snd (fetchWithTimeout tr u None st)) = requests st @ [u]
   \<and> (5000 \<le> fst (tr (requests st) u)
        \<longrightarrow> fst (fetchWithTimeout tr u None st) = Inl (FetchTimedOut 5000)
          \<and> fst (get_cralwer P tr u schema st) = Inl TimeoutError)
   \<and> (fst (tr (requests st) u) < 5000 \<and> snd (tr (requests st) u) \<noteq> Inl AbortError
        \<longrightarrow> fst (fetchWithTimeout tr u None st) = snd (tr (requests st) u))
   \<and> requests (snd (get_cralwer P tr u schema st)) = requests st @ [u]"
  by (simp add: get_state get_result fetchWithTimeout_state fetchWithTimeout_result
      get_cralwer_state get_cralwer_result fetchWithTimeout_default)

theorem protocol_client_errors_witness:
  "fst (get example_platform example_net ''https://lemmy.world/api/v3/site'' nodeInfoSchema
          \<lparr>clock = 0, requests = []\<rparr>) = Inl ZodError
   \<and> fst (get example_platform example_net ''https://nowhere.example/nodeinfo/2.1''
          nodeInfoSchema \<lparr>clock = 0, requests = []\<rparr>) = Inl (TransportError ''ENOTFOUND'')
   \<and> fst (fetchWithTimeout
          (serve [(''https://slow.example/nodeinfo/2.1'', 7000, 200, body_nodeinfo_piefed)])
          ''https://slow.example/nodeinfo/2.1'' None \<lparr>clock = 0, requests = []\<rparr>)
       = Inl (FetchTimedOut 5000)
   \<and> fst (fetchWithTimeout example_net ''https://lemmy.world/nodeinfo/2.1'' None
          \<lparr>clock = 0, requests = []\<rparr>)
       = Inr \<lparr>statusCode = 200, body = body_nodeinfo_lemmy_0_19\<rparr>"
proof -
  have a: "example_net [] ''https://lemmy.world/api/v3/site''
             = (100, Inr \<lparr>statusCode = 200, body = body_site_50\<rparr>)"
    and b: "example_net [] ''https://nowhere.example/nodeinfo/2.1''
             = (30, Inl (TransportError ''ENOTFOUND''))"
    and c: "serve [(''https://slow.example/nodeinfo/2.1'', 7000, 200, body_nodeinfo_piefed)]
              [] ''https://slow.example/nodeinfo/2.1''
             = (7000, Inr \<lparr>statusCode = 200, body = body_nodeinfo_piefed\<rparr>)"
    and d: "example_net [] ''https://lemmy.world/nodeinfo/2.1''
             = (100, Inr \<lparr>statusCode = 200, body = body_nodeinfo_lemmy_0_19\<rparr>)"
    by (simp_all add: example_net_def serve_def)
  have p: "JSON_parse example_platform body_site_50 = Some (json_site 50 False)"
    by (simp add: example_eval)
  have z: "nodeInfoSchema (json_site 50 False) = None"
    by (simp add: nodeInfoSchema_def json_site_def z_object_def z_field_def property_def)
  have 1: "fst (get example_platform example_net ''https://lemmy.world/api/v3/site''
          nodeInfoSchema \<lparr>clock = 0, requests = []\<rparr>) = Inl ZodError"
    using protocol_client_errors
        [of example_platform example_net "''https://lemmy.world/api/v3/site''" nodeInfoSchema
          "\<lparr>clock = 0, requests = []\<rparr>"]
    by (simp add: a p z)
  have 2: "fst (get example_platform example_net ''https://nowhere.example/nodeinfo/2.1''
          nodeInfoSchema \<lparr>clock = 0, requests = []\<rparr>) = Inl (TransportError ''ENOTFOUND'')"
    using protocol_client_errors
        [of example_platform example_net "''https://nowhere.example/nodeinfo/2.1''"
          nodeInfoSchema "\<lparr>clock = 0, requests = []\<rparr>"]
    by (simp add: b)
  have 3: "fst (fetchWithTimeout
          (serve [(''https://slow.example/nodeinfo/2.1'', 7000, 200, body_nodeinfo_piefed)])
          ''https://slow.example/nodeinfo/2.1'' None \<lparr>clock = 0, requests = []\<rparr>)
       = Inl (FetchTimedOut 5000)"
    using protocol_client_errors
        [of example_platform
          "serve [(''https://slow.example/nodeinfo/2.1'', 7000, 200, body_nodeinfo_piefed)]"
          "''https://slow.example/nodeinfo/2.1''" nodeInfoSchema
          "\<lparr>clock = 0, requests = []\<rparr>"]
    by (simp add: c)
  have 4: "fst (fetchWithTimeout example_net ''https://lemmy.world/nodeinfo/2.1'' None
          \<lparr>clock = 0, requests = []\<rparr>)
       = Inr \<lparr>statusCode = 200, body = body_nodeinfo_lemmy_0_19\<rparr>"
    using protocol_client_errors
        [of example_platform example_net "''https://lemmy.world/nodeinfo/2.1''" nodeInfoSchema
          "\<lparr>clock = 0, requests = []\<rparr>"]
    by (simp add: d)
  show ?thesis
    using 1 2 3 4 by simp
qed

section \<open>A failed task stays confined to its address (C9)\<close>



section \<open>The recency window is fixed when the module is loaded (C10)\<close>

text \<open>
  C10: \<open>dateLessThanOneMonthAgo\<close> is membership of the parsed instant in the closed
  interval from 30 days before the first clock reading of the module's load to the
  second reading. The interval is a constant of the module, so the answer does not
  depend on when the function is called, and a timestamp that parses to an instant
  after the interval's end (a future-dated one) gives false. An unparseable timestamp
  gives false as well. The clock is assumed not to go backwards between the two
  readings.
\<close>

theorem dateLessThanOneMonthAgo_closed_interval:
  assumes "now1 \<le> now2"
  shows "(dateLessThanOneMonthAgo parse (ONE_MONTH_AGO now1 now2) date
            \<longleftrightarrow> (\<exists>t. parse date = Some t \<and> now1 - 30 * 86400000 \<le> t \<and> t \<le> now2))
         \<and> (\<forall>t. parse date = Some t \<and> now2 < t
               \<longrightarrow> \<not> dateLessThanOneMonthAgo parse (ONE_MONTH_AGO now1 now2) date)"
  using dateLessThanOneMonthAgo_iff [OF assms, of parse date] by auto

theorem dateLessThanOneMonthAgo_closed_interval_witness:
  "load_time \<le> load_time + 1
   \<and> example_parseISO ''2026-01-01T00:01:00Z'' = Some 1767225660000
   \<and> load_time + 1 < 1767225660000
   \<and> \<not> dateLessThanOneMonthAgo example_parseISO (ONE_MONTH_AGO load_time (load_time + 1))
         ''2026-01-01T00:01:00Z''
   \<and> dateLessThanOneMonthAgo example_parseISO (ONE_MONTH_AGO load_time (load_time + 1))
         ''2025-12-03T00:00:00Z''"
proof -
  have h: "load_time \<le> load_time + 1" by simp
  have p: "example_parseISO ''2026-01-01T00:01:00Z'' = Some 1767225660000"
    and q: "example_parseISO ''2025-12-03T00:00:00Z'' = Some 1764720000000"
    by (simp_all add: example_parseISO_def)
  show ?thesis
    using dateLessThanOneMonthAgo_closed_interval
      [OF h, of example_parseISO "''2026-01-01T00:01:00Z''"]
      dateLessThanOneMonthAgo_closed_interval
      [OF h, of example_parseISO "''2025-12-03T00:00:00Z''"]
    by (simp add: p q load_time_def)
qed

end
